theory Spec2Isabelle
  imports Main
begin

section \<open>Errors of the row codec (errors.go)\<close>

text \<open>
  The error structs and the three sentinel errors of \<^verbatim>\<open>errors.go\<close>. Every function that
  returns \<^verbatim>\<open>(T, error)\<close> in the source returns \<open>error + T\<close> here, \<open>Inl\<close> being the error.
  \<^item> \<open>ParseError position message input\<close>
  \<^item> \<open>TypeMismatchError fieldName fieldPos value expectedType reason\<close>
  \<^item> \<open>ValidationError fieldName tagValue message\<close>
  \<^item> \<open>MarshalError fieldName fieldPos reason\<close> (the offending value is left out)
\<close>

datatype error =
    ParseError nat string string
  | TypeMismatchError string nat string string string
  | ValidationError string string string
  | MarshalError string nat string
  | ErrNilPointer
  | ErrNotStruct
  | ErrEmptyInput

section \<open>Bytes and the standard-library string helpers\<close>

text \<open>
  A Go string is a sequence of bytes: \<open>string\<close>, a list of 8-bit \<open>char\<close>s.
\<close>

abbreviation dquote :: char where "dquote \<equiv> CHR 0x22"
abbreviation backslash :: char where "backslash \<equiv> CHR 0x5C"
abbreviation comma :: char where "comma \<equiv> CHR 0x2C"
abbreviation lparen :: char where "lparen \<equiv> CHR 0x28"
abbreviation rparen :: char where "rparen \<equiv> CHR 0x29"
abbreviation squote :: char where "squote \<equiv> CHR 0x27"

text \<open>
  \<^verbatim>\<open>unicode.IsSpace(rune(b))\<close> for a single byte \<open>b\<close>: the byte is read as a Latin-1 code
  point, where the white space is tab, LF, VT, FF, CR, space, U+0085 and U+00A0.
\<close>

definition isSpace :: "char \<Rightarrow> bool" where
  "isSpace c = (c = CHR 0x09 \<or> c = CHR 0x0A \<or> c = CHR 0x0B \<or> c = CHR 0x0C \<or> c = CHR 0x0D
     \<or> c = CHR 0x20 \<or> c = CHR 0x85 \<or> c = CHR 0xA0)"

text \<open>
  \<^verbatim>\<open>strings.TrimSpace\<close> removes leading and trailing Unicode white space, reading the
  string as UTF-8. The white-space code points are the six ASCII ones and, beyond ASCII,
  U+0085, U+00A0, U+1680, U+2000 to U+200A, U+2028, U+2029, U+202F, U+205F and U+3000,
  listed here by their UTF-8 encodings. A byte that starts no such encoding stops the trim.
\<close>

definition asciiSpace :: "char \<Rightarrow> bool" where
  "asciiSpace c = (c = CHR 0x09 \<or> c = CHR 0x0A \<or> c = CHR 0x0B \<or> c = CHR 0x0C \<or> c = CHR 0x0D
     \<or> c = CHR 0x20)"

definition unicodeSpaces :: "string list" where
  "unicodeSpaces =
    [[CHR 0xC2, CHR 0x85], [CHR 0xC2, CHR 0xA0], [CHR 0xE1, CHR 0x9A, CHR 0x80],
     [CHR 0xE2, CHR 0x80, CHR 0x80], [CHR 0xE2, CHR 0x80, CHR 0x81],
     [CHR 0xE2, CHR 0x80, CHR 0x82], [CHR 0xE2, CHR 0x80, CHR 0x83],
     [CHR 0xE2, CHR 0x80, CHR 0x84], [CHR 0xE2, CHR 0x80, CHR 0x85],
     [CHR 0xE2, CHR 0x80, CHR 0x86], [CHR 0xE2, CHR 0x80, CHR 0x87],
     [CHR 0xE2, CHR 0x80, CHR 0x88], [CHR 0xE2, CHR 0x80, CHR 0x89],
     [CHR 0xE2, CHR 0x80, CHR 0x8A], [CHR 0xE2, CHR 0x80, CHR 0xA8],
     [CHR 0xE2, CHR 0x80, CHR 0xA9], [CHR 0xE2, CHR 0x80, CHR 0xAF],
     [CHR 0xE2, CHR 0x81, CHR 0x9F], [CHR 0xE3, CHR 0x80, CHR 0x80]]"

text \<open>The number of bytes of the white-space code point at the start of a string (0: none).\<close>

definition leadingSpaceLen :: "string \<Rightarrow> nat" where
  "leadingSpaceLen s =
     (case s of [] \<Rightarrow> 0
      | c # cs \<Rightarrow>
          if asciiSpace c then 1
          else (case filter (\<lambda>q. take (length q) s = q) unicodeSpaces of
                  [] \<Rightarrow> 0 | q # qs \<Rightarrow> length q))"

text \<open>The number of bytes of the white-space code point at the end of a string (0: none).\<close>

definition trailingSpaceLen :: "string \<Rightarrow> nat" where
  "trailingSpaceLen s =
     (if s = [] then 0
      else if asciiSpace (last s) then 1
      else (case filter (\<lambda>q. length q \<le> length s \<and> drop (length s - length q) s = q)
                   unicodeSpaces of
              [] \<Rightarrow> 0 | q # qs \<Rightarrow> length q))"

lemma leadingSpaceLen_le: "leadingSpaceLen s \<le> length s"
proof (cases s)
  case Nil
  then show ?thesis by (simp add: leadingSpaceLen_def)
next
  case (Cons c cs)
  show ?thesis
  proof (cases "filter (\<lambda>q. take (length q) s = q) unicodeSpaces")
    case Nil
    then show ?thesis using Cons by (simp add: leadingSpaceLen_def)
  next
    case (Cons q qs)
    then have "q \<in> set (filter (\<lambda>q. take (length q) s = q) unicodeSpaces)" by simp
    then have "take (length q) s = q" by simp
    then have "length q = min (length s) (length q)"
      by (metis length_take)
    then have "length q \<le> length s" by linarith
    then show ?thesis using Cons \<open>s = c # cs\<close> by (simp add: leadingSpaceLen_def)
  qed
qed

lemma trailingSpaceLen_le: "trailingSpaceLen s \<le> length s"
proof (cases "filter (\<lambda>q. length q \<le> length s \<and> drop (length s - length q) s = q) unicodeSpaces")
  case Nil
  then show ?thesis by (cases s) (simp_all add: trailingSpaceLen_def)
next
  case (Cons q qs)
  then have "q \<in> set (filter (\<lambda>q. length q \<le> length s \<and> drop (length s - length q) s = q)
      unicodeSpaces)" by simp
  then have "length q \<le> length s" by simp
  then show ?thesis using Cons by (cases s) (simp_all add: trailingSpaceLen_def)
qed

function TrimLeftSpace :: "string \<Rightarrow> string" where
  "TrimLeftSpace s =
     (if leadingSpaceLen s = 0 then s else TrimLeftSpace (drop (leadingSpaceLen s) s))"
  by pat_completeness auto
termination
proof (relation "measure length")
  show "wf (measure length)" by simp
next
  fix s :: string
  assume "leadingSpaceLen s \<noteq> 0"
  then have "0 < leadingSpaceLen s" by simp
  moreover have "s \<noteq> []" using \<open>leadingSpaceLen s \<noteq> 0\<close> by (auto simp: leadingSpaceLen_def)
  ultimately show "(drop (leadingSpaceLen s) s, s) \<in> measure length" by simp
qed

declare TrimLeftSpace.simps [simp del]

function TrimRightSpace :: "string \<Rightarrow> string" where
  "TrimRightSpace s =
     (if trailingSpaceLen s = 0 then s
      else TrimRightSpace (take (length s - trailingSpaceLen s) s))"
  by pat_completeness auto
termination
proof (relation "measure length")
  show "wf (measure length)" by simp
next
  fix s :: string
  assume "trailingSpaceLen s \<noteq> 0"
  then have "0 < trailingSpaceLen s" by simp
  moreover have "s \<noteq> []" using \<open>trailingSpaceLen s \<noteq> 0\<close> by (auto simp: trailingSpaceLen_def)
  ultimately show "(take (length s - trailingSpaceLen s) s, s) \<in> measure length" by simp
qed

declare TrimRightSpace.simps [simp del]

definition TrimSpace :: "string \<Rightarrow> string" where
  "TrimSpace s = TrimRightSpace (TrimLeftSpace s)"

section \<open>Row-literal lexer and writer (second part of types.go)\<close>

record Token =
  Value :: string
  RawValue :: string
  Quoted :: bool
  Position :: nat

text \<open>The two white-space skipping loops of \<^verbatim>\<open>parseTokens\<close>.\<close>

function skipSpace :: "string \<Rightarrow> nat \<Rightarrow> nat" where
  "skipSpace content pos =
     (if pos < length content \<and> isSpace (content ! pos) then skipSpace content (pos + 1)
      else pos)"
  by pat_completeness auto
termination
  by (relation "measure (\<lambda>(content, pos). length content - pos)") auto

declare skipSpace.simps [simp del]

text \<open>The switch of \<^verbatim>\<open>parseQuotedString\<close> on the byte that follows a backslash.\<close>

definition unescape :: "char \<Rightarrow> string" where
  "unescape ch =
     (if ch = CHR ''n'' then [CHR 0x0A]
      else if ch = CHR ''r'' then [CHR 0x0D]
      else if ch = CHR ''t'' then [CHR 0x09]
      else if ch = backslash then [backslash]
      else if ch = dquote then [dquote]
      else if ch = comma then [comma]
      else if ch = CHR ''0'' then [CHR 0x00]
      else [backslash, ch])"

text \<open>
  The loop of \<^verbatim>\<open>parseQuotedString\<close>; \<open>val\<close> is the string builder and \<open>escaped\<close> the flag.
\<close>

function parseQuotedLoop ::
  "string \<Rightarrow> nat \<Rightarrow> nat \<Rightarrow> nat \<Rightarrow> string \<Rightarrow> bool \<Rightarrow> error + (Token \<times> nat)" where
  "parseQuotedLoop content startPos tokenStart pos val escaped =
     (if pos < length content then
        (if escaped then
           parseQuotedLoop content startPos tokenStart (pos + 1) (val @ unescape (content ! pos)) False
         else if content ! pos = backslash then
           parseQuotedLoop content startPos tokenStart (pos + 1) val True
         else if content ! pos = dquote then
           (if pos + 1 < length content \<and> content ! (pos + 1) = dquote then
              parseQuotedLoop content startPos tokenStart (pos + 2) (val @ [dquote]) False
            else
              Inr (\<lparr>Value = val,
                    RawValue = take (pos + 1 - tokenStart) (drop tokenStart content),
                    Quoted = True,
                    Position = startPos + tokenStart\<rparr>, pos + 1))
         else
           parseQuotedLoop content startPos tokenStart (pos + 1) (val @ [content ! pos]) False)
      else Inl (ParseError (startPos + tokenStart) ''unclosed quoted string'' content))"
  by pat_completeness auto
termination
  by (relation "measure (\<lambda>(content, startPos, tokenStart, pos, val, escaped). length content - pos)")
    auto

declare parseQuotedLoop.simps [simp del]

definition parseQuotedString :: "string \<Rightarrow> nat \<Rightarrow> nat \<Rightarrow> error + (Token \<times> nat)" where
  "parseQuotedString content pos startPos =
     (if pos \<ge> length content \<or> content ! pos \<noteq> dquote then
        Inl (ParseError (startPos + pos) ''expected opening quote'' content)
      else parseQuotedLoop content startPos pos (pos + 1) [] False)"

text \<open>
  The loop of \<^verbatim>\<open>parseUnquotedValue\<close>: it returns the position where it stopped and the
  builder, or the error of a quote inside the value.
\<close>

function parseUnquotedLoop :: "string \<Rightarrow> nat \<Rightarrow> nat \<Rightarrow> string \<Rightarrow> error + (string \<times> nat)" where
  "parseUnquotedLoop content startPos pos val =
     (if pos < length content then
        (if content ! pos = comma \<or> content ! pos = rparen \<or> isSpace (content ! pos) then
           Inr (val, pos)
         else if content ! pos = dquote then
           Inl (ParseError (startPos + pos) ''unexpected quote in unquoted value'' content)
         else parseUnquotedLoop content startPos (pos + 1) (val @ [content ! pos]))
      else Inr (val, pos))"
  by pat_completeness auto
termination
  by (relation "measure (\<lambda>(content, startPos, pos, val). length content - pos)") auto

declare parseUnquotedLoop.simps [simp del]

definition parseUnquotedValue :: "string \<Rightarrow> nat \<Rightarrow> nat \<Rightarrow> error + (Token \<times> nat)" where
  "parseUnquotedValue content pos startPos =
     (case parseUnquotedLoop content startPos pos [] of
        Inl e \<Rightarrow> Inl e
      | Inr (val, pos') \<Rightarrow>
          Inr (\<lparr>Value = TrimSpace val,
                RawValue = take (pos' - pos) (drop pos content),
                Quoted = False,
                Position = startPos + pos\<rparr>, pos'))"

lemma skipSpace_ge: "pos \<le> skipSpace content pos"
proof (induction content pos rule: skipSpace.induct)
  case (1 content pos)
  show ?case
  proof (cases "pos < length content \<and> isSpace (content ! pos)")
    case True
    then have "pos + 1 \<le> skipSpace content (pos + 1)" using "1.IH" by simp
    then show ?thesis using True by (subst skipSpace.simps) simp
  next
    case False
    then show ?thesis by (subst skipSpace.simps) auto
  qed
qed

lemma parseQuotedLoop_gt:
  "parseQuotedLoop content startPos tokenStart pos val escaped = Inr (tok, p) \<Longrightarrow> pos < p"
proof (induction content startPos tokenStart pos val escaped rule: parseQuotedLoop.induct)
  case (1 content startPos tokenStart pos val escaped)
  from "1.prems" have lt: "pos < length content"
    by (subst (asm) parseQuotedLoop.simps) (simp split: if_splits)
  show ?case
  proof (cases escaped)
    case True
    with lt "1.prems" have
      "parseQuotedLoop content startPos tokenStart (pos + 1) (val @ unescape (content ! pos)) False
         = Inr (tok, p)"
      by (subst (asm) parseQuotedLoop.simps) simp
    with "1.IH"(1) lt True have "pos + 1 < p" by simp
    then show ?thesis by simp
  next
    case nesc: False
    show ?thesis
    proof (cases "content ! pos = backslash")
      case True
      with lt nesc "1.prems" have
        "parseQuotedLoop content startPos tokenStart (pos + 1) val True = Inr (tok, p)"
        by (subst (asm) parseQuotedLoop.simps) simp
      with "1.IH"(2) lt nesc True have "pos + 1 < p" by simp
      then show ?thesis by simp
    next
      case nbs: False
      show ?thesis
      proof (cases "content ! pos = dquote")
        case True
        show ?thesis
        proof (cases "pos + 1 < length content \<and> content ! (pos + 1) = dquote")
          case dbl: True
          with lt nesc nbs True "1.prems" have
            "parseQuotedLoop content startPos tokenStart (pos + 2) (val @ [dquote]) False
               = Inr (tok, p)"
            by (subst (asm) parseQuotedLoop.simps) simp
          with "1.IH"(3) lt nesc nbs True dbl have "pos + 2 < p" by simp
          then show ?thesis by simp
        next
          case False
          with lt nesc nbs True "1.prems" have "p = pos + 1"
            by (subst (asm) parseQuotedLoop.simps) auto
          then show ?thesis by simp
        qed
      next
        case False
        with lt nesc nbs "1.prems" have
          "parseQuotedLoop content startPos tokenStart (pos + 1) (val @ [content ! pos]) False
             = Inr (tok, p)"
          by (subst (asm) parseQuotedLoop.simps) simp
        with "1.IH"(4) lt nesc nbs False have "pos + 1 < p" by simp
        then show ?thesis by simp
      qed
    qed
  qed
qed

lemma parseQuotedString_gt: "parseQuotedString content pos startPos = Inr (tok, p) \<Longrightarrow> pos < p"
  using parseQuotedLoop_gt [of content startPos pos "pos + 1" "[]" False tok p]
  by (auto simp: parseQuotedString_def split: if_splits)

lemma parseUnquotedLoop_ge:
  "parseUnquotedLoop content startPos pos val = Inr (v, p) \<Longrightarrow> pos \<le> p"
proof (induction content startPos pos val rule: parseUnquotedLoop.induct)
  case (1 content startPos pos val)
  show ?case
  proof (cases "pos < length content \<and> \<not> (content ! pos = comma \<or> content ! pos = rparen
      \<or> isSpace (content ! pos)) \<and> content ! pos \<noteq> dquote")
    case True
    with "1.prems" have
      "parseUnquotedLoop content startPos (pos + 1) (val @ [content ! pos]) = Inr (v, p)"
      by (subst (asm) parseUnquotedLoop.simps) simp
    with "1.IH" True have "pos + 1 \<le> p" by simp
    then show ?thesis by simp
  next
    case False
    with "1.prems" show ?thesis
      by (subst (asm) parseUnquotedLoop.simps) (auto split: if_splits)
  qed
qed

lemma parseUnquotedValue_ge: "parseUnquotedValue content pos startPos = Inr (tok, p) \<Longrightarrow> pos \<le> p"
  using parseUnquotedLoop_ge [of content startPos pos "[]"]
  by (auto simp: parseUnquotedValue_def split: sum.splits)

text \<open>
  The loop of \<^verbatim>\<open>parseTokens\<close>. In the source the loop head tests \<^verbatim>\<open>pos < n\<close> again after a
  value that ends the content; the recursive call does the same here.
\<close>

function parseTokensLoop :: "string \<Rightarrow> nat \<Rightarrow> nat \<Rightarrow> Token list \<Rightarrow> error + Token list" where
  "parseTokensLoop content startPos pos tokens =
     (if pos < length content then
        (if skipSpace content pos \<ge> length content then Inr tokens
         else
           (case (if content ! (skipSpace content pos) = dquote
                  then parseQuotedString content (skipSpace content pos) startPos
                  else parseUnquotedValue content (skipSpace content pos) startPos) of
              Inl e \<Rightarrow> Inl e
            | Inr (token, p) \<Rightarrow>
                (if skipSpace content p < length content then
                   (if content ! (skipSpace content p) = comma then
                      parseTokensLoop content startPos (skipSpace content p + 1) (tokens @ [token])
                    else Inl (ParseError (startPos + skipSpace content p)
                                (''expected '' @ [squote, comma, squote] @ '' or end of row'')
                                content))
                 else parseTokensLoop content startPos (skipSpace content p) (tokens @ [token]))))
      else Inr tokens)"
  by pat_completeness auto
termination
proof (relation "measure (\<lambda>(content, startPos, pos, tokens). length content - pos)")
  show "wf (measure (\<lambda>(content, startPos, pos, tokens). length content - pos))" by simp
next
  fix content :: string and startPos pos :: nat and tokens :: "Token list"
    and x2 :: "Token \<times> nat" and x :: Token and y :: nat
  assume lt: "pos < length content"
    and res: "(if content ! skipSpace content pos = dquote
          then parseQuotedString content (skipSpace content pos) startPos
          else parseUnquotedValue content (skipSpace content pos) startPos) = Inr x2"
    and x2: "(x, y) = x2"
    and lt3: "skipSpace content y < length content"
  have "skipSpace content pos \<le> y"
    using res x2 parseQuotedString_gt [of content "skipSpace content pos" startPos x y]
      parseUnquotedValue_ge [of content "skipSpace content pos" startPos x y]
    by (auto split: if_splits)
  then have "pos \<le> skipSpace content y"
    using skipSpace_ge [of pos content] skipSpace_ge [of y content] by linarith
  then show "((content, startPos, skipSpace content y + 1, tokens @ [x]),
      (content, startPos, pos, tokens))
    \<in> measure (\<lambda>(content, startPos, pos, tokens). length content - pos)"
    using lt3 by simp
next
  fix content :: string and startPos pos :: nat and tokens :: "Token list"
    and x2 :: "Token \<times> nat" and x :: Token and y :: nat
  assume lt: "pos < length content"
    and ge3: "\<not> skipSpace content y < length content"
  then show "((content, startPos, skipSpace content y, tokens @ [x]),
      (content, startPos, pos, tokens))
    \<in> measure (\<lambda>(content, startPos, pos, tokens). length content - pos)"
    by simp
qed

declare parseTokensLoop.simps [simp del]

definition parseTokens :: "string \<Rightarrow> nat \<Rightarrow> error + Token list" where
  "parseTokens content startPos = parseTokensLoop content startPos 0 []"

definition ParseRowLiteral :: "string \<Rightarrow> error + Token list" where
  "ParseRowLiteral input0 =
     (let input = TrimSpace input0 in
      if input = [] then Inl ErrEmptyInput
      else if input ! 0 \<noteq> lparen then
        Inl (ParseError 0 (''expected opening parenthesis '' @ [squote, lparen, squote]) input)
      else if input ! (length input - 1) \<noteq> rparen then
        Inl (ParseError (length input - 1)
               (''expected closing parenthesis '' @ [squote, rparen, squote]) input)
      else
        (let content = take (length input - 1 - 1) (drop 1 input) in
         if TrimSpace content = [] then Inr [] else parseTokens content 1))"

text \<open>The switch of \<^verbatim>\<open>EscapeString\<close> on one byte, and the function itself.\<close>

definition escapeByte :: "char \<Rightarrow> string" where
  "escapeByte ch =
     (if ch = dquote then [backslash, dquote]
      else if ch = backslash then [backslash, backslash]
      else if ch = CHR 0x0A then [backslash, CHR ''n'']
      else if ch = CHR 0x0D then [backslash, CHR ''r'']
      else if ch = CHR 0x09 then [backslash, CHR ''t'']
      else if ch = CHR 0x00 then [backslash, CHR ''0'']
      else [ch])"

definition EscapeString :: "string \<Rightarrow> string" where
  "EscapeString s = [dquote] @ concat (map escapeByte s) @ [dquote]"

text \<open>\<^verbatim>\<open>strings.Join\<close>, and \<^verbatim>\<open>BuildRowLiteral\<close>, which writes a comma before every value but the first.\<close>

fun joinStrings :: "string list \<Rightarrow> string \<Rightarrow> string" where
  "joinStrings [] sep = []"
| "joinStrings [x] sep = x"
| "joinStrings (x # y # ys) sep = x @ sep @ joinStrings (y # ys) sep"

definition BuildRowLiteral :: "string list \<Rightarrow> string" where
  "BuildRowLiteral values = [lparen] @ joinStrings values [comma] @ [rparen]"

section \<open>Properties of the lexer and the writer\<close>

subsection \<open>Single steps of the quoted-string loop\<close>

lemma quoted_step_plain:
  "pos < length content \<Longrightarrow> content ! pos \<noteq> backslash \<Longrightarrow> content ! pos \<noteq> dquote \<Longrightarrow>
   parseQuotedLoop content sp ts pos val False
     = parseQuotedLoop content sp ts (pos + 1) (val @ [content ! pos]) False"
  by (subst parseQuotedLoop.simps) simp

lemma quoted_step_escape:
  assumes "pos + 1 < length content" and "content ! pos = backslash"
  shows "parseQuotedLoop content sp ts pos val False
     = parseQuotedLoop content sp ts (pos + 2) (val @ unescape (content ! (pos + 1))) False"
proof -
  have "parseQuotedLoop content sp ts pos val False
      = parseQuotedLoop content sp ts (pos + 1) val True"
    using assms by (subst parseQuotedLoop.simps) simp
  also have "\<dots> = parseQuotedLoop content sp ts (pos + 1 + 1) (val @ unescape (content ! (pos + 1))) False"
    using assms by (subst parseQuotedLoop.simps) simp
  finally show ?thesis by (simp add: numeral_2_eq_2)
qed

lemma quoted_step_close:
  assumes "pos < length content" and "content ! pos = dquote"
    and "pos + 1 < length content \<Longrightarrow> content ! (pos + 1) \<noteq> dquote"
  shows "parseQuotedLoop content sp ts pos val False
     = Inr (\<lparr>Value = val, RawValue = take (pos + 1 - ts) (drop ts content), Quoted = True,
             Position = sp + ts\<rparr>, pos + 1)"
  using assms by (subst parseQuotedLoop.simps) auto

lemma escapeByte_cases:
  "(escapeByte c = [c] \<and> c \<noteq> backslash \<and> c \<noteq> dquote)
   \<or> (\<exists>x. escapeByte c = [backslash, x] \<and> unescape x = [c])"
  by (simp add: escapeByte_def unescape_def)

lemma parseQuotedLoop_escaped:
  assumes "rest = [] \<or> hd rest \<noteq> dquote"
  shows "parseQuotedLoop (pre @ concat (map escapeByte s) @ dquote # rest) sp ts (length pre) val False
       = Inr (\<lparr>Value = val @ s,
               RawValue = take (length pre + length (concat (map escapeByte s)) + 1 - ts)
                            (drop ts (pre @ concat (map escapeByte s) @ dquote # rest)),
               Quoted = True, Position = sp + ts\<rparr>,
              length pre + length (concat (map escapeByte s)) + 1)"
proof (induction s arbitrary: pre val)
  case Nil
  have "(pre @ dquote # rest) ! (length pre + 1) \<noteq> dquote" if "length pre + 1 < length (pre @ dquote # rest)"
    using that assms by (cases rest) (auto simp: nth_append)
  then show ?case
    using quoted_step_close [of "length pre" "pre @ dquote # rest" sp ts val]
    by simp
next
  case (Cons c cs)
  let ?tail = "concat (map escapeByte cs) @ dquote # rest"
  from escapeByte_cases [of c] show ?case
  proof
    assume plain: "escapeByte c = [c] \<and> c \<noteq> backslash \<and> c \<noteq> dquote"
    have "parseQuotedLoop (pre @ c # ?tail) sp ts (length pre) val False
        = parseQuotedLoop (pre @ c # ?tail) sp ts (length pre + 1) (val @ [c]) False"
      using plain quoted_step_plain [of "length pre" "pre @ c # ?tail" sp ts val] by simp
    also have "\<dots> = parseQuotedLoop ((pre @ [c]) @ ?tail) sp ts (length (pre @ [c])) (val @ [c]) False"
      by simp
    finally show ?thesis
      using plain by (simp only: Cons.IH) simp
  next
    assume "\<exists>x. escapeByte c = [backslash, x] \<and> unescape x = [c]"
    then obtain x where esc: "escapeByte c = [backslash, x]" and un: "unescape x = [c]" by blast
    have nth1: "(pre @ backslash # x # ?tail) ! (length pre + 1) = x"
      by (simp add: nth_append)
    have "parseQuotedLoop (pre @ backslash # x # ?tail) sp ts (length pre) val False
        = parseQuotedLoop (pre @ backslash # x # ?tail) sp ts (length pre + 2) (val @ [c]) False"
      using quoted_step_escape [of "length pre" "pre @ backslash # x # ?tail" sp ts val] nth1 un
      by simp
    also have "\<dots> = parseQuotedLoop ((pre @ [backslash, x]) @ ?tail) sp ts
          (length (pre @ [backslash, x])) (val @ [c]) False"
      by simp
    finally show ?thesis
      using esc by (simp only: Cons.IH) simp
  qed
qed


lemma leadingSpaceLen_0:
  "\<not> asciiSpace c \<Longrightarrow> c \<notin> set (map hd unicodeSpaces) \<Longrightarrow> leadingSpaceLen (c # cs) = 0"
  by (auto simp: leadingSpaceLen_def unicodeSpaces_def)

lemma drop_snoc_last:
  assumes "q \<noteq> []" and "length q \<le> length (ys @ [c])"
    and "drop (length (ys @ [c]) - length q) (ys @ [c]) = q"
  shows "last q = c"
proof -
  have "last (drop (length (ys @ [c]) - length q) (ys @ [c])) = last (ys @ [c])"
    using assms(1,2) by (intro last_drop) (cases q, auto)
  then show ?thesis using assms(3) by simp
qed

lemma trailingSpaceLen_0:
  assumes "\<not> asciiSpace c" and "c \<notin> set (map last unicodeSpaces)"
  shows "trailingSpaceLen (ys @ [c]) = 0"
proof -
  let ?P = "\<lambda>q. length q \<le> length (ys @ [c]) \<and> drop (length (ys @ [c]) - length q) (ys @ [c]) = q"
  have "\<not> ?P q" if mem: "q \<in> set unicodeSpaces" for q
  proof
    assume P: "?P q"
    have "q \<noteq> []" using mem unfolding unicodeSpaces_def by auto
    then have "last q = c" using P drop_snoc_last [of q ys c] by blast
    moreover have "last q \<in> set (map last unicodeSpaces)" using mem by simp
    ultimately show False using assms(2) by simp
  qed
  then have "filter ?P unicodeSpaces = []"
    unfolding filter_empty_conv by blast
  then show ?thesis using assms(1) by (simp add: trailingSpaceLen_def)
qed

lemma TrimLeftSpace_id:
  "\<not> asciiSpace c \<Longrightarrow> c \<notin> set (map hd unicodeSpaces) \<Longrightarrow> TrimLeftSpace (c # cs) = c # cs"
  by (subst TrimLeftSpace.simps) (simp add: leadingSpaceLen_0)

lemma TrimRightSpace_id:
  "\<not> asciiSpace c \<Longrightarrow> c \<notin> set (map last unicodeSpaces) \<Longrightarrow> TrimRightSpace (ys @ [c]) = ys @ [c]"
  by (subst TrimRightSpace.simps) (simp add: trailingSpaceLen_0)

lemma TrimSpace_id:
  assumes "\<not> asciiSpace c" "c \<notin> set (map hd unicodeSpaces)"
    and "\<not> asciiSpace d" "d \<notin> set (map last unicodeSpaces)"
  shows "TrimSpace (c # ys @ [d]) = c # ys @ [d]"
proof -
  have "TrimRightSpace ((c # ys) @ [d]) = (c # ys) @ [d]"
    using assms(3,4) by (rule TrimRightSpace_id)
  then show ?thesis using assms(1,2) by (simp add: TrimSpace_def TrimLeftSpace_id)
qed

lemma TrimSpace_paren: "TrimSpace (lparen # ys @ [rparen]) = lparen # ys @ [rparen]"
  by (rule TrimSpace_id) (simp_all add: asciiSpace_def unicodeSpaces_def)

lemma TrimSpace_quoted: "TrimSpace (dquote # ys @ [dquote]) = dquote # ys @ [dquote]"
  by (rule TrimSpace_id) (simp_all add: asciiSpace_def unicodeSpaces_def)

lemma skipSpace_stop: "pos < length content \<Longrightarrow> \<not> isSpace (content ! pos) \<Longrightarrow> skipSpace content pos = pos"
  by (subst skipSpace.simps) simp

lemma skipSpace_end: "length content \<le> pos \<Longrightarrow> skipSpace content pos = pos"
  by (subst skipSpace.simps) simp

subsection \<open>Escaped strings parse back\<close>

text \<open>
  Claim C7. For every byte string \<open>s\<close> (quotes, backslashes, newlines, carriage returns, tabs
  and NUL bytes included), parsing the one-element row literal \<open>(\<close>\<^verbatim>\<open>EscapeString(s)\<close>\<open>)\<close>
  succeeds with exactly one token; the token is quoted, its decoded value is \<open>s\<close>, its raw
  value is the escaped string and it starts at offset 1.
\<close>

theorem C7_escape_parse_roundtrip:
  "ParseRowLiteral ([lparen] @ EscapeString s @ [rparen])
     = Inr [\<lparr>Value = s, RawValue = EscapeString s, Quoted = True, Position = 1\<rparr>]"
proof -
  let ?body = "concat (map escapeByte s)"
  let ?content = "dquote # ?body @ [dquote]"
  let ?tok = "\<lparr>Value = s, RawValue = ?content, Quoted = True, Position = 1\<rparr>"
  have quoted: "parseQuotedString ?content 0 1 = Inr (?tok, length ?content)"
    using parseQuotedLoop_escaped [of "[]" "[dquote]" s 1 0 "[]"]
    by (simp add: parseQuotedString_def)
  have skip0: "skipSpace ?content 0 = 0"
    by (rule skipSpace_stop) (simp_all add: isSpace_def)
  have skipn: "skipSpace ?content (length ?content) = length ?content"
    by (rule skipSpace_end) simp
  have "parseTokensLoop ?content 1 0 [] = parseTokensLoop ?content 1 (length ?content) [?tok]"
    using quoted skip0 skipn by (subst parseTokensLoop.simps) simp
  also have "\<dots> = Inr [?tok]"
    by (subst parseTokensLoop.simps) simp
  finally have toks: "parseTokens ?content 1 = Inr [?tok]"
    by (simp add: parseTokens_def)
  have trim: "TrimSpace (lparen # ?content @ [rparen]) = lparen # ?content @ [rparen]"
    by (rule TrimSpace_paren)
  have inner: "TrimSpace ?content = ?content"
    by (rule TrimSpace_quoted)
  have last: "(lparen # ?content @ [rparen]) ! (length (lparen # ?content @ [rparen]) - 1) = rparen"
    by (simp add: nth_append)
  have content: "take (length (lparen # ?content @ [rparen]) - 1 - 1) (drop 1 (lparen # ?content @ [rparen]))
      = ?content"
    by simp
  show ?thesis
    unfolding ParseRowLiteral_def EscapeString_def Let_def
    using trim inner last content toks
    by simp
qed

subsection \<open>Unquoted values\<close>





section \<open>SQL builder (templates/pgx/pgx.go)\<close>

text \<open>
  The template types \<^verbatim>\<open>Field\<close> and \<^verbatim>\<open>Table\<close>, and the part of \<^verbatim>\<open>Funcs\<close> that the SQL
  builder reads: the driver and schema names, the placeholder function \<^verbatim>\<open>nth\<close> and the
  three escape switches.
\<close>

record Field =
  GoName :: string
  SQLName :: string
  Type :: string
  Zero :: string
  IsPrimary :: bool
  IsSequence :: bool
  Comment :: string

record Table =
  Type :: string
  GoName :: string
  SQLName :: string
  PrimaryKeys :: "Field list"
  Fields :: "Field list"
  Manual :: bool
  Comment :: string

record Funcs =
  driver :: string
  schema :: string
  nth :: "nat \<Rightarrow> string"
  escSchema :: bool
  escTable :: bool
  escColumn :: bool

text \<open>
  The argument \<^verbatim>\<open>v any\<close> of the \<^verbatim>\<open>sqlstr_\<close> functions: a \<^verbatim>\<open>Table\<close>, or a value of another
  type, of which only the name that \<^verbatim>\<open>%T\<close> prints matters.
\<close>

datatype tplvalue = TableV Table | OtherV string

text \<open>Decimal digits of a natural number, as \<^verbatim>\<open>%d\<close> and \<^verbatim>\<open>strconv.Itoa\<close> print them.\<close>

definition digitChar :: "nat \<Rightarrow> char" where
  "digitChar d = ''0123456789'' ! d"

function showNat :: "nat \<Rightarrow> string" where
  "showNat n = (if n < 10 then [digitChar n] else showNat (n div 10) @ [digitChar (n mod 10)])"
  by pat_completeness auto
termination
  by (relation "measure id") auto

declare showNat.simps [simp del]

text \<open>
  Modelled from the spec: \<^verbatim>\<open>loader.NthParam\<close>, which supplies \<^verbatim>\<open>Funcs.nth\<close>, is not among the
  sources. The specification says: placeholder numbering uses \<open>$n\<close> (1-based) assigned in
  column order. The builder itself is modelled for any \<open>nth\<close>.
\<close>

definition postgresNth :: "nat \<Rightarrow> string" where
  "postgresNth i = ''$'' @ showNat (i + 1)"

definition colname :: "Funcs \<Rightarrow> Field \<Rightarrow> string" where
  "colname f field =
     (if escColumn f then [dquote] @ Field.SQLName field @ [dquote] else Field.SQLName field)"

definition schemafn :: "Funcs \<Rightarrow> string list \<Rightarrow> string" where
  "schemafn f names =
     (let s = schema f; n = joinStrings names ''.'' in
      if s = [] \<and> n = [] then []
      else if driver f = ''sqlite3'' then n
      else if s \<noteq> [] \<and> n \<noteq> [] \<and> escSchema f then
        [dquote] @ s @ [dquote] @ ''.'' @ [dquote] @ n @ [dquote]
      else if s \<noteq> [] \<and> n \<noteq> [] then s @ ''.'' @ n
      else if escSchema f then [dquote] @ n @ [dquote]
      else n)"

fun hasSequence :: "Table \<Rightarrow> bool" where
  "hasSequence t = (find IsSequence (Fields t) \<noteq> None)"

fun seqField :: "Table \<Rightarrow> Field" where
  "seqField t =
     (case find IsSequence (Fields t) of
        Some field \<Rightarrow> field
      | None \<Rightarrow> \<lparr>Field.GoName = [], SQLName = [], Type = [], Zero = [], IsPrimary = False,
                  IsSequence = False, Comment = []\<rparr>)"

text \<open>The loop of \<^verbatim>\<open>sqlstr_insert_base\<close> over the flds, with its counter and its two slices
  (\<open>flds\<close> is the slice \<^verbatim>\<open>fields\<close> of the source).\<close>

fun insertLoop ::
  "Funcs \<Rightarrow> bool \<Rightarrow> Field list \<Rightarrow> nat \<Rightarrow> string list \<Rightarrow> string list
     \<Rightarrow> string list \<times> string list" where
  "insertLoop f all [] n flds vals = (flds, vals)"
| "insertLoop f all (field # rest) n flds vals =
     (if IsSequence field \<and> \<not> all then insertLoop f all rest n flds vals
      else insertLoop f all rest (n + 1) (flds @ [colname f field]) (vals @ [nth f n]))"

definition sqlstr_insert_base :: "Funcs \<Rightarrow> bool \<Rightarrow> Table \<Rightarrow> string list" where
  "sqlstr_insert_base f all t =
     (case insertLoop f all (Fields t) 0 [] [] of
        (flds, vals) \<Rightarrow>
          [''INSERT INTO '' @ schemafn f [Table.SQLName t] @ '' ('',
           joinStrings flds '', '' @ '') '',
           ''VALUES ('' @ joinStrings vals '', '' @ '')''])"

definition sqlstr_insert :: "Funcs \<Rightarrow> tplvalue \<Rightarrow> string list" where
  "sqlstr_insert f v =
     (case v of
        TableV x \<Rightarrow>
          (if hasSequence x
           then sqlstr_insert_base f False x @ ['' RETURNING '' @ colname f (seqField x)]
           else sqlstr_insert_base f False x)
      | OtherV ty \<Rightarrow> [''[[ UNSUPPORTED TYPE 19: '' @ ty @ '' ]]''])"

text \<open>The loop of \<^verbatim>\<open>sqlstr_update_base\<close>: the counter and the assignments.\<close>

fun updateLoop :: "Funcs \<Rightarrow> string \<Rightarrow> Field list \<Rightarrow> nat \<Rightarrow> string list \<Rightarrow> nat \<times> string list" where
  "updateLoop f prefix [] n flds = (n, flds)"
| "updateLoop f prefix (field # rest) n flds =
     (if IsPrimary field then updateLoop f prefix rest n flds
      else updateLoop f prefix rest (n + 1)
             (flds @ [colname f field @ '' = ''
                          @ (if prefix \<noteq> [] then prefix @ Field.SQLName field else nth f n)]))"

definition sqlstr_update_base :: "Funcs \<Rightarrow> string \<Rightarrow> tplvalue \<Rightarrow> nat \<times> string list" where
  "sqlstr_update_base f prefix v =
     (case v of
        TableV x \<Rightarrow>
          (case updateLoop f prefix (Fields x) 0 [] of
             (n, flds) \<Rightarrow>
               (n, [''UPDATE '' @ schemafn f [Table.SQLName x] @ '' SET '',
                    joinStrings flds '', '' @ '' '']))
      | OtherV ty \<Rightarrow> (0, [''[[ UNSUPPORTED TYPE 20: '' @ ty @ '' ]]'']))"



definition sqlstr_upsert :: "Funcs \<Rightarrow> tplvalue \<Rightarrow> string list" where
  "sqlstr_upsert f v =
     (case v of
        TableV x \<Rightarrow>
          (let lines = sqlstr_insert_base f True x;
               conflicts = map Field.SQLName (PrimaryKeys x);
               lines = lines @ ['' ON CONFLICT ('' @ joinStrings conflicts '', '' @ '') DO ''];
               update = snd (sqlstr_update_base f ''EXCLUDED.'' (TableV x));
               lines = (if length update > 1 then lines @ drop 1 update else lines)
           in if hasSequence x then lines @ ['' RETURNING '' @ colname f (seqField x)]
              else lines)
      | OtherV ty \<Rightarrow> [''[[ UNSUPPORTED TYPE 22: '' @ ty @ '' ]]''])"


text \<open>
  \<^verbatim>\<open>buildSqlstr\<close> lays the lines out as the Go constant of the generated file; the text of
  the SQL statement is their concatenation.
\<close>

definition sqlText :: "string list \<Rightarrow> string" where
  "sqlText lines = concat lines"

text \<open>
  Two tables of the integration schema of the repository, as \<^verbatim>\<open>convertTable\<close> builds them:
  \<open>books\<close> with the sequence \<open>book_id\<close> as its primary key, and \<open>book_tags\<close> with the
  composite primary key \<open>(book_id, tag_id)\<close> and no sequence.
\<close>

definition exampleFuncs :: Funcs where
  "exampleFuncs = \<lparr>driver = ''postgres'', schema = ''public'', nth = postgresNth,
     escSchema = False, escTable = False, escColumn = False\<rparr>"

definition exampleField :: "string \<Rightarrow> string \<Rightarrow> string \<Rightarrow> bool \<Rightarrow> bool \<Rightarrow> Field" where
  "exampleField goName sqlName typ primary sequence =
     \<lparr>Field.GoName = goName, SQLName = sqlName, Type = typ, Zero = [],
      IsPrimary = primary, IsSequence = sequence, Comment = []\<rparr>"

definition exampleBooks :: Table where
  "exampleBooks =
     \<lparr>Table.Type = ''table'', GoName = ''Book'', SQLName = ''books'',
      PrimaryKeys = [exampleField ''BookID'' ''book_id'' ''int'' True True],
      Fields = [exampleField ''BookID'' ''book_id'' ''int'' True True,
                exampleField ''AuthorID'' ''author_id'' ''int'' False False,
                exampleField ''Title'' ''title'' ''string'' False False,
                exampleField ''Isbn'' ''isbn'' ''string'' False False],
      Manual = False, Comment = []\<rparr>"

definition exampleBookTags :: Table where
  "exampleBookTags =
     \<lparr>Table.Type = ''table'', GoName = ''BookTag'', SQLName = ''book_tags'',
      PrimaryKeys = [exampleField ''BookID'' ''book_id'' ''int'' True False,
                     exampleField ''TagID'' ''tag_id'' ''int'' True False],
      Fields = [exampleField ''BookID'' ''book_id'' ''int'' True False,
                exampleField ''TagID'' ''tag_id'' ''int'' True False,
                exampleField ''Note'' ''note'' ''string'' False False],
      Manual = False, Comment = []\<rparr>"

section \<open>Properties of the SQL builder\<close>

text \<open>
  Closed forms of the three loops: the columns an insert names, the assignments of an update
  with their placeholder numbers, and the conditions of a \<open>WHERE\<close> clause.
\<close>

definition insertCols :: "bool \<Rightarrow> Field list \<Rightarrow> Field list" where
  "insertCols all fs = filter (\<lambda>c. \<not> (IsSequence c \<and> \<not> all)) fs"


lemma insertCols_True: "insertCols True fs = fs"
  by (simp add: insertCols_def)


definition assignment :: "Funcs \<Rightarrow> string \<Rightarrow> nat \<times> Field \<Rightarrow> string" where
  "assignment f prefix ic =
     colname f (snd ic) @ '' = ''
       @ (if prefix \<noteq> [] then prefix @ Field.SQLName (snd ic) else nth f (fst ic))"

lemma updateLoop_eq:
  "updateLoop f prefix fs n flds =
     (n + length (filter (\<lambda>c. \<not> IsPrimary c) fs),
      flds @ map (assignment f prefix) (enumerate n (filter (\<lambda>c. \<not> IsPrimary c) fs)))"
proof (induction fs arbitrary: n flds)
  case Nil
  then show ?case by simp
next
  case (Cons c cs)
  show ?case
  proof (cases "IsPrimary c")
    case True
    then show ?thesis using Cons.IH [of n flds] by simp
  next
    case False
    then have step: "updateLoop f prefix (c # cs) n flds
        = updateLoop f prefix cs (n + 1) (flds @ [assignment f prefix (n, c)])"
      by (simp add: assignment_def)
    show ?thesis
      unfolding step Cons.IH [of "n + 1" "flds @ [assignment f prefix (n, c)]"]
      using False by simp
  qed
qed




lemma assignment_excluded:
  "map (assignment f ''EXCLUDED.'') (enumerate n cs)
     = map (\<lambda>c. colname f c @ '' = EXCLUDED.'' @ Field.SQLName c) cs"
  by (induction cs arbitrary: n) (simp_all add: assignment_def)



lemma sqlstr_update_base_eq:
  "sqlstr_update_base f prefix (TableV t) =
     (length (filter (\<lambda>c. \<not> IsPrimary c) (Fields t)),
      [''UPDATE '' @ schemafn f [Table.SQLName t] @ '' SET '',
       joinStrings (map (assignment f prefix) (enumerate 0 (filter (\<lambda>c. \<not> IsPrimary c) (Fields t))))
         '', '' @ '' ''])"
  by (simp add: sqlstr_update_base_def updateLoop_eq)



text \<open>
  The upsert statement of every table: the all-columns insert, the conflict clause ending in
  \<open>DO\<close>, the assignments \<open>c = EXCLUDED.c\<close> of the non-primary-key columns, and \<open>RETURNING\<close>
  when the table has a sequence. \<^verbatim>\<open>sqlstr_upsert\<close> drops the first line of
  \<^verbatim>\<open>sqlstr_update_base\<close> (\<open>UPDATE <table> SET\<close>) and puts nothing in its place.
\<close>

lemma sqlstr_upsert_eq:
  "sqlstr_upsert f (TableV t) =
     sqlstr_insert_base f True t
     @ ['' ON CONFLICT ('' @ joinStrings (map Field.SQLName (PrimaryKeys t)) '', '' @ '') DO '',
        joinStrings (map (\<lambda>c. colname f c @ '' = EXCLUDED.'' @ Field.SQLName c)
           (filter (\<lambda>c. \<not> IsPrimary c) (Fields t))) '', '' @ '' '']
     @ (if hasSequence t then ['' RETURNING '' @ colname f (seqField t)] else [])"
  by (simp add: sqlstr_upsert_def sqlstr_update_base_eq Let_def assignment_excluded
      del: hasSequence.simps seqField.simps)

text \<open>
  Claim C2, at the table \<open>book_tags\<close>. The claim asks for
  \<open>ON CONFLICT (book_id, tag_id) DO UPDATE SET note = EXCLUDED.note\<close>; the generated statement
  has no \<open>UPDATE SET\<close> between \<open>DO\<close> and the assignments.
\<close>

theorem C2_upsert_text:
  "sqlText (sqlstr_upsert exampleFuncs (TableV exampleBookTags))
     = ''INSERT INTO public.book_tags (book_id, tag_id, note) VALUES ($1, $2, $3) ON CONFLICT (book_id, tag_id) DO note = EXCLUDED.note ''"
  by code_simp

section \<open>Emission planner: destinations of the emitted templates (templates/pgx/pgx.go)\<close>





text \<open>\<^verbatim>\<open>strings.ToLower\<close> on ASCII text: the letters A to Z are lowered, every other byte is kept.\<close>

definition toLowerByte :: "char \<Rightarrow> char" where
  "toLowerByte c =
     (if 65 \<le> (of_char c :: nat) \<and> (of_char c :: nat) \<le> 90 then char_of (of_char c + 32 :: nat)
      else c)"

definition ToLower :: "string \<Rightarrow> string" where
  "ToLower s = map toLowerByte s"


text \<open>
  The input types of package \<^verbatim>\<open>xo\<close>, cut down to what decides a destination: the names, the
  routine's kind, and of a table's indexes and foreign keys their names.
\<close>

record XoEnum =
  Name :: string

record XoProc =
  Type :: string
  Name :: string

record XoTable =
  Type :: string
  Name :: string
  Indexes :: "string list"
  ForeignKeys :: "string list"

record XoQuery =
  Type :: string



record Proc =
  Type :: string
  GoName :: string
  SQLName :: string
  Overloaded :: bool









section \<open>Properties of the emission planner\<close>

text \<open>
  What the specification's words for the destinations mean, as definitions of their own: the
  routines whose camel name no earlier routine has, and the destination of an enum, of a
  routine and of a table.
\<close>

fun firstOfName :: "('a \<Rightarrow> string) \<Rightarrow> 'a list \<Rightarrow> 'a list" where
  "firstOfName key [] = []"
| "firstOfName key (p # ps) = p # firstOfName key (filter (\<lambda>q. key q \<noteq> key p) ps)"









lemma firstOfName_filter_hit:
  "P p \<Longrightarrow> firstOfName key (filter P (p # ps))
     = p # firstOfName key (filter (\<lambda>q. key q \<noteq> key p \<and> P q) ps)"
  by (simp add: conj_commute)















section \<open>Go types as reflection sees them\<close>

text \<open>
  The types a field of a record can have. \<open>TStruct\<close> is a struct type without methods, given
  by its name and its fields (name, exported or not, the value of the \<open>row\<close> key of its tag when it has
  one, and type). \<open>TTime\<close> is \<^verbatim>\<open>time.Time\<close>, the \<open>TNull\<close> types are the wrappers of
  \<^verbatim>\<open>database/sql\<close>, and \<open>TOther\<close> is a type of any other kind (map, channel, function,
  interface, array, complex), of which only the name matters. User types with methods
  (\<^verbatim>\<open>sql.Scanner\<close>, \<^verbatim>\<open>StringParser\<close>, \<^verbatim>\<open>driver.Valuer\<close>, \<^verbatim>\<open>fmt.Stringer\<close>) are outside the
  model.
\<close>

datatype gotype =
    TBool | TString
  | TInt | TInt8 | TInt16 | TInt32 | TInt64
  | TUint | TUint8 | TUint16 | TUint32 | TUint64
  | TFloat32 | TFloat64
  | TTime
  | TNullString | TNullBool | TNullInt16 | TNullInt32 | TNullInt64 | TNullByte
  | TNullFloat64 | TNullTime
  | TPtr gotype
  | TSlice gotype
  | TStruct string "StructField list"
  | TOther string
and StructField =
  StructField (Name: string) (IsExported: bool) (Tag: "string option") (Type: gotype)

text \<open>
  The fields of a type of kind struct, \<open>None\<close> for every other kind. \<^verbatim>\<open>time.Time\<close> and the
  \<^verbatim>\<open>sql.Null\<close> wrappers are structs of the standard library, without \<open>row\<close> tags.
\<close>

definition nullFields :: "string \<Rightarrow> gotype \<Rightarrow> StructField list" where
  "nullFields name ty = [StructField name True None ty, StructField ''Valid'' True None TBool]"

fun fieldsOf :: "gotype \<Rightarrow> StructField list option" where
  "fieldsOf (TStruct name fs) = Some fs"
| "fieldsOf TTime =
     Some [StructField ''wall'' False None TUint64, StructField ''ext'' False None TInt64,
           StructField ''loc'' False None (TPtr (TOther ''time.Location''))]"
| "fieldsOf TNullString = Some (nullFields ''String'' TString)"
| "fieldsOf TNullBool = Some (nullFields ''Bool'' TBool)"
| "fieldsOf TNullInt16 = Some (nullFields ''Int16'' TInt16)"
| "fieldsOf TNullInt32 = Some (nullFields ''Int32'' TInt32)"
| "fieldsOf TNullInt64 = Some (nullFields ''Int64'' TInt64)"
| "fieldsOf TNullByte = Some (nullFields ''Byte'' TUint8)"
| "fieldsOf TNullFloat64 = Some (nullFields ''Float64'' TFloat64)"
| "fieldsOf TNullTime = Some (nullFields ''Time'' TTime)"
| "fieldsOf t = None"

section \<open>Tag model (tags.go)\<close>

record TagOptions =
  Position :: nat
  OmitEmpty :: bool
  Required :: bool
  Default :: string
  HasDefault :: bool

record FieldInfo =
  Name :: string
  Index :: nat
  Type :: gotype
  Options :: TagOptions
  HasTag :: bool

text \<open>
  \<^verbatim>\<open>strconv.Atoi\<close>: an optional sign and then decimal digits only, within the range of a
  64-bit \<^verbatim>\<open>int\<close>; \<open>None\<close> is its error.
\<close>

definition isDigit :: "char \<Rightarrow> bool" where
  "isDigit c = (48 \<le> (of_char c :: nat) \<and> (of_char c :: nat) \<le> 57)"

definition digitsValue :: "string \<Rightarrow> nat" where
  "digitsValue ds = foldl (\<lambda>acc c. 10 * acc + (of_char c - 48)) 0 ds"

definition Atoi :: "string \<Rightarrow> int option" where
  "Atoi s =
     (let neg = (s \<noteq> [] \<and> hd s = CHR ''-'');
          ds = (if s \<noteq> [] \<and> (hd s = CHR ''-'' \<or> hd s = CHR ''+'') then tl s else s);
          v = (if neg then - int (digitsValue ds) else int (digitsValue ds))
      in if ds = [] \<or> \<not> list_all isDigit ds then None
         else if v < - (2 ^ 63) \<or> 2 ^ 63 - 1 < v then None
         else Some v)"

text \<open>
  The loop of \<^verbatim>\<open>splitTagParts\<close>, which \<^verbatim>\<open>splitSliceElements\<close> repeats byte for byte. The
  source ranges over the runes of the tag and writes each back; on valid UTF-8 that copies
  the bytes, and the three bytes it looks for are ASCII.
\<close>

fun splitLoop :: "string \<Rightarrow> string list \<Rightarrow> string \<Rightarrow> bool \<Rightarrow> bool \<Rightarrow> string list" where
  "splitLoop [] parts current inQuote escaped =
     (if current \<noteq> [] then parts @ [current] else parts)"
| "splitLoop (r # rest) parts current inQuote escaped =
     (if escaped then splitLoop rest parts (current @ [r]) inQuote False
      else if r = backslash then splitLoop rest parts (current @ [r]) inQuote True
      else if r = dquote then splitLoop rest parts (current @ [r]) (\<not> inQuote) False
      else if r = comma then
        (if inQuote then splitLoop rest parts (current @ [r]) inQuote False
         else splitLoop rest (parts @ [current]) [] inQuote False)
      else splitLoop rest parts (current @ [r]) inQuote False)"

definition splitTagParts :: "string \<Rightarrow> string list" where
  "splitTagParts tag = splitLoop tag [] [] False False"

text \<open>\<^verbatim>\<open>strings.Index\<close> for a one-byte needle; \<open>None\<close> is the result \<open>-1\<close>.\<close>

definition indexByte :: "string \<Rightarrow> char \<Rightarrow> nat option" where
  "indexByte s c = (if c \<in> set s then Some (length (takeWhile (\<lambda>x. x \<noteq> c) s)) else None)"

text \<open>The loop of \<^verbatim>\<open>ParseTag\<close> over the parts after the position.\<close>

fun parseOptions :: "string \<Rightarrow> string list \<Rightarrow> TagOptions \<Rightarrow> error + TagOptions" where
  "parseOptions tagValue [] opts = Inr opts"
| "parseOptions tagValue (p # ps) opts =
     (let part = TrimSpace p in
      if part = [] then parseOptions tagValue ps opts
      else
        (case indexByte part (CHR ''='') of
           Some idx \<Rightarrow>
             (let key = TrimSpace (take idx part); value = TrimSpace (drop (idx + 1) part) in
              if key = ''default''
              then parseOptions tagValue ps (opts\<lparr>Default := value, HasDefault := True\<rparr>)
              else Inl (ValidationError [] tagValue (''unknown option: '' @ key)))
         | None \<Rightarrow>
             (if part = ''omitempty'' then parseOptions tagValue ps (opts\<lparr>OmitEmpty := True\<rparr>)
              else if part = ''required'' then parseOptions tagValue ps (opts\<lparr>Required := True\<rparr>)
              else Inl (ValidationError [] tagValue (''unknown option: '' @ part)))))"

definition emptyOptions :: TagOptions where
  "emptyOptions = \<lparr>Position = 0, OmitEmpty = False, Required = False, Default = [],
                    HasDefault = False\<rparr>"

definition ParseTag :: "string \<Rightarrow> error + TagOptions" where
  "ParseTag tagValue =
     (if tagValue = [] \<or> tagValue = ''-'' then Inr emptyOptions
      else
        (let parts = splitTagParts tagValue in
         if parts = [] then Inl (ValidationError [] tagValue ''empty tag value'')
         else
           (case Atoi (TrimSpace (parts ! 0)) of
              None \<Rightarrow> Inl (ValidationError [] tagValue ''position must be a positive integer'')
            | Some pos \<Rightarrow>
                if pos < 1
                then Inl (ValidationError [] tagValue ''position must be >= 1 (1-indexed)'')
                else
                  (case parseOptions tagValue (drop 1 parts)
                          (emptyOptions\<lparr>Position := nat pos\<rparr>) of
                     Inl e \<Rightarrow> Inl e
                   | Inr opts \<Rightarrow>
                       if Required opts \<and> OmitEmpty opts
                       then Inl (ValidationError [] tagValue
                                   ''conflicting options: required and omitempty'')
                       else if Required opts \<and> HasDefault opts
                       then Inl (ValidationError [] tagValue
                                   ''conflicting options: required and default'')
                       else Inr opts))))"

text \<open>
  Go maps keyed by position are association lists with distinct keys here: \<open>map_of\<close> looks a
  position up, and the list of keys is what a \<^verbatim>\<open>range\<close> loop visits, in an order the
  language leaves open.
\<close>

type_synonym 'v posmap = "(nat \<times> 'v) list"

text \<open>
  \<^verbatim>\<open>GetStructFields\<close> puts the name of the field into a validation error of \<^verbatim>\<open>ParseTag\<close>.
\<close>

fun withFieldName :: "error \<Rightarrow> string \<Rightarrow> error" where
  "withFieldName (ValidationError fieldName tagValue message) name =
     ValidationError name tagValue message"
| "withFieldName e name = e"

fun structFieldsLoop ::
  "StructField list \<Rightarrow> nat \<Rightarrow> FieldInfo posmap \<Rightarrow> string posmap \<Rightarrow> error + FieldInfo posmap" where
  "structFieldsLoop [] i flds positions = Inr flds"
| "structFieldsLoop (field # rest) i flds positions =
     (if \<not> IsExported field then structFieldsLoop rest (i + 1) flds positions
      else
        (case Tag field of
           None \<Rightarrow> structFieldsLoop rest (i + 1) flds positions
         | Some tagValue \<Rightarrow>
             if tagValue = ''-'' then structFieldsLoop rest (i + 1) flds positions
             else
               (case ParseTag tagValue of
                  Inl e \<Rightarrow> Inl (withFieldName e (StructField.Name field))
                | Inr opts \<Rightarrow>
                    (case map_of positions (Position opts) of
                       Some existingField \<Rightarrow>
                         Inl (ValidationError (StructField.Name field) tagValue
                                (''duplicate position '' @ showNat (Position opts)
                                 @ '' (also used by field '' @ existingField @ '')''))
                     | None \<Rightarrow>
                         structFieldsLoop rest (i + 1)
                           (flds @ [(Position opts,
                                     \<lparr>Name = StructField.Name field, Index = i,
                                      Type = StructField.Type field, Options = opts,
                                      HasTag = True\<rparr>)])
                           (positions @ [(Position opts, StructField.Name field)])))))"

definition GetStructFields :: "gotype \<Rightarrow> error + FieldInfo posmap" where
  "GetStructFields t0 =
     (let t = (case t0 of TPtr elem \<Rightarrow> elem | _ \<Rightarrow> t0) in
      case fieldsOf t of
        None \<Rightarrow> Inl ErrNotStruct
      | Some fs \<Rightarrow> structFieldsLoop fs 0 [] [])"

definition GetMaxPosition :: "FieldInfo posmap \<Rightarrow> nat" where
  "GetMaxPosition flds = foldl (\<lambda>m pos. if pos > m then pos else m) 0 (map fst flds)"

definition GetSortedPositions :: "FieldInfo posmap \<Rightarrow> nat list" where
  "GetSortedPositions flds =
     (if flds = [] then []
      else filter (\<lambda>i. map_of flds i \<noteq> None) [1..<GetMaxPosition flds + 1])"

section \<open>Properties of the tag model\<close>

text \<open>
  A part of a tag that sets a default: after trimming it holds an \<open>=\<close> whose left side trims
  to \<open>default\<close>.
\<close>

definition isDefaultPart :: "string \<Rightarrow> bool" where
  "isDefaultPart p =
     (case indexByte (TrimSpace p) (CHR ''='') of
        Some idx \<Rightarrow> TrimSpace (take idx (TrimSpace p)) = ''default''
      | None \<Rightarrow> False)"

lemma parseOptions_error:
  "parseOptions tagValue ps opts = Inl e \<Longrightarrow> \<exists>msg. e = ValidationError [] tagValue msg"
  by (induction ps arbitrary: opts) (auto simp: Let_def split: if_splits option.splits)

lemma indexByte_required: "indexByte ''required'' (CHR ''='') = None"
  by (simp add: indexByte_def)

lemma indexByte_omitempty: "indexByte ''omitempty'' (CHR ''='') = None"
  by (simp add: indexByte_def)

lemma parseOptions_flags:
  "parseOptions tagValue ps opts = Inr opts' \<Longrightarrow>
     (Required opts \<or> ''required'' \<in> set (map TrimSpace ps) \<longrightarrow> Required opts')
     \<and> (OmitEmpty opts \<or> ''omitempty'' \<in> set (map TrimSpace ps) \<longrightarrow> OmitEmpty opts')
     \<and> (HasDefault opts \<or> list_ex isDefaultPart ps \<longrightarrow> HasDefault opts')"
proof (induction ps arbitrary: opts)
  case Nil
  then show ?case by simp
next
  case (Cons p ps)
  let ?part = "TrimSpace p"
  show ?case
  proof (cases "?part = []")
    case True
    then have "parseOptions tagValue ps opts = Inr opts'" using Cons.prems by simp
    from Cons.IH [OF this] True show ?thesis
      by (auto simp: isDefaultPart_def indexByte_def)
  next
    case nonempty: False
    show ?thesis
    proof (cases "indexByte ?part (CHR ''='')")
      case (Some idx)
      with nonempty Cons.prems have key: "TrimSpace (take idx ?part) = ''default''"
        and rest: "parseOptions tagValue ps
            (opts\<lparr>Default := TrimSpace (drop (idx + 1) ?part), HasDefault := True\<rparr>) = Inr opts'"
        by (auto simp: Let_def split: if_splits)
      have ne1: "?part \<noteq> ''required''" using Some indexByte_required by auto
      have ne2: "?part \<noteq> ''omitempty''" using Some indexByte_omitempty by auto
      from Cons.IH [OF rest] ne1 ne2 show ?thesis by auto
    next
      case None
      then have nd: "\<not> isDefaultPart p" by (simp add: isDefaultPart_def)
      show ?thesis
      proof (cases "?part = ''omitempty''")
        case True
        with nonempty None Cons.prems have
          rest: "parseOptions tagValue ps (opts\<lparr>OmitEmpty := True\<rparr>) = Inr opts'"
          by (simp add: Let_def)
        from Cons.IH [OF rest] True nd show ?thesis by auto
      next
        case no: False
        show ?thesis
        proof (cases "?part = ''required''")
          case True
          with nonempty None no Cons.prems have
            rest: "parseOptions tagValue ps (opts\<lparr>Required := True\<rparr>) = Inr opts'"
            by (simp add: Let_def)
          from Cons.IH [OF rest] True nd show ?thesis by auto
        next
          case False
          with nonempty None no Cons.prems show ?thesis by (simp add: Let_def)
        qed
      qed
    qed
  qed
qed

lemma ParseTag_error:
  "ParseTag tag = Inl e \<Longrightarrow> \<exists>msg. e = ValidationError [] tag msg"
  unfolding ParseTag_def Let_def
  by (auto split: if_splits option.splits sum.splits dest: parseOptions_error)

lemma ParseTag_flags:
  assumes "ParseTag tag = Inr opts"
  shows "\<not> (''required'' \<in> set (map TrimSpace (drop 1 (splitTagParts tag)))
            \<and> (''omitempty'' \<in> set (map TrimSpace (drop 1 (splitTagParts tag)))
               \<or> list_ex isDefaultPart (drop 1 (splitTagParts tag))))"
proof (cases "tag = [] \<or> tag = ''-''")
  case True
  then have "drop 1 (splitTagParts tag) = []"
    by (auto simp: splitTagParts_def)
  then show ?thesis by simp
next
  case False
  with assms obtain pos opts0 where
    po: "parseOptions tag (drop 1 (splitTagParts tag)) opts0 = Inr opts"
    and ok: "\<not> (Required opts \<and> OmitEmpty opts)" "\<not> (Required opts \<and> HasDefault opts)"
    unfolding ParseTag_def Let_def
    by (auto split: if_splits option.splits sum.splits)
  from parseOptions_flags [OF po] ok show ?thesis by auto
qed


text \<open>
  The fields that \<^verbatim>\<open>GetStructFields\<close> enters into its map (exported, with a \<open>row\<close> tag other
  than \<open>-\<close> that \<^verbatim>\<open>ParseTag\<close> accepts), and the position such a field declares.
\<close>

definition eligible :: "StructField \<Rightarrow> bool" where
  "eligible field =
     (IsExported field \<and>
      (case Tag field of
         None \<Rightarrow> False
       | Some tagValue \<Rightarrow>
           tagValue \<noteq> ''-'' \<and> (case ParseTag tagValue of Inl e \<Rightarrow> False | Inr opts \<Rightarrow> True)))"

definition tagPosition :: "StructField \<Rightarrow> nat" where
  "tagPosition field =
     (case Tag field of
        None \<Rightarrow> 0
      | Some tagValue \<Rightarrow> (case ParseTag tagValue of Inl e \<Rightarrow> 0 | Inr opts \<Rightarrow> Position opts))"

lemma withFieldName_validation:
  "\<exists>msg. e = ValidationError [] tagValue msg \<Longrightarrow>
   \<exists>msg. withFieldName e name = ValidationError name tagValue msg"
  by auto

lemma structFieldsLoop_error:
  "structFieldsLoop fs i flds positions = Inl e \<Longrightarrow>
   \<exists>name tagValue msg. e = ValidationError name tagValue msg"
proof (induction fs arbitrary: i flds positions)
  case Nil
  then show ?case by simp
next
  case (Cons field rest)
  show ?case
  proof (cases "eligible field")
    case False
    then have "structFieldsLoop (field # rest) i flds positions
        = structFieldsLoop rest (i + 1) flds positions
      \<or> (\<exists>tagValue e'. ParseTag tagValue = Inl e'
            \<and> structFieldsLoop (field # rest) i flds positions
                = Inl (withFieldName e' (StructField.Name field)))"
      by (auto simp: eligible_def split: option.splits sum.splits)
    then show ?thesis
    proof
      assume "structFieldsLoop (field # rest) i flds positions
        = structFieldsLoop rest (i + 1) flds positions"
      with Cons.prems Cons.IH show ?thesis by simp
    next
      assume "\<exists>tagValue e'. ParseTag tagValue = Inl e'
            \<and> structFieldsLoop (field # rest) i flds positions
                = Inl (withFieldName e' (StructField.Name field))"
      then obtain tagValue e' where pt: "ParseTag tagValue = Inl e'"
        and r: "structFieldsLoop (field # rest) i flds positions
                = Inl (withFieldName e' (StructField.Name field))"
        by blast
      from ParseTag_error [OF pt] obtain msg where "e' = ValidationError [] tagValue msg" by blast
      with r Cons.prems show ?thesis by auto
    qed
  next
    case True
    then obtain tagValue opts where tg: "IsExported field" "Tag field = Some tagValue"
        "tagValue \<noteq> ''-''" "ParseTag tagValue = Inr opts"
      by (auto simp: eligible_def split: option.splits sum.splits)
    show ?thesis
    proof (cases "map_of positions (Position opts)")
      case None
      with tg Cons.prems Cons.IH show ?thesis by simp
    next
      case (Some existing)
      with tg Cons.prems show ?thesis by auto
    qed
  qed
qed

lemma map_of_snoc_None:
  "map_of (xs @ [(k, v)]) p = None \<longleftrightarrow> map_of xs p = None \<and> p \<noteq> k"
  by (induction xs) auto

lemma structFieldsLoop_distinct:
  "structFieldsLoop fs i flds positions = Inr res \<Longrightarrow>
   distinct (map tagPosition (filter eligible fs))
   \<and> list_all (\<lambda>p. map_of positions p = None) (map tagPosition (filter eligible fs))"
proof (induction fs arbitrary: i flds positions)
  case Nil
  then show ?case by simp
next
  case (Cons field rest)
  show ?case
  proof (cases "eligible field")
    case False
    then have "structFieldsLoop rest (i + 1) flds positions = Inr res"
      using Cons.prems by (auto simp: eligible_def split: option.splits sum.splits if_splits)
    from Cons.IH [OF this] False show ?thesis by simp
  next
    case True
    then obtain tagValue opts where tg: "IsExported field" "Tag field = Some tagValue"
        "tagValue \<noteq> ''-''" "ParseTag tagValue = Inr opts"
      by (auto simp: eligible_def split: option.splits sum.splits)
    then have pos: "tagPosition field = Position opts" by (simp add: tagPosition_def)
    from tg Cons.prems have none: "map_of positions (Position opts) = None"
      by (auto split: option.splits)
    with tg Cons.prems obtain flds' where
      rest: "structFieldsLoop rest (i + 1) flds'
               (positions @ [(Position opts, StructField.Name field)]) = Inr res"
      by auto
    from Cons.IH [OF rest] have d: "distinct (map tagPosition (filter eligible rest))"
      and a: "list_all (\<lambda>p. map_of (positions @ [(Position opts, StructField.Name field)]) p = None)
                (map tagPosition (filter eligible rest))"
      by simp_all
    from a have a1: "list_all (\<lambda>p. map_of positions p = None) (map tagPosition (filter eligible rest))"
      and a2: "Position opts \<notin> set (map tagPosition (filter eligible rest))"
      unfolding map_of_snoc_None list_all_iff by auto
    show ?thesis using True d a1 a2 none pos by simp
  qed
qed

lemma distinct_map_filter_nth:
  "distinct (map g (filter P xs)) \<Longrightarrow> i < j \<Longrightarrow> j < length xs \<Longrightarrow> P (xs ! i) \<Longrightarrow> P (xs ! j)
   \<Longrightarrow> g (xs ! i) \<noteq> g (xs ! j)"
proof (induction xs arbitrary: i j)
  case Nil
  then show ?case by simp
next
  case (Cons x xs)
  show ?case
  proof (cases i)
    case 0
    with Cons.prems obtain j' where j': "j = Suc j'" "j' < length xs" by (cases j) auto
    with Cons.prems 0 have "g (xs ! j') \<in> set (map g (filter P xs))" by auto
    with Cons.prems 0 j' show ?thesis by auto
  next
    case (Suc i')
    with Cons.prems obtain j' where j': "j = Suc j'" "i' < j'" "j' < length xs" by (cases j) auto
    have "distinct (map g (filter P xs))" using Cons.prems(1) by (auto split: if_splits)
    from Cons.IH [OF this j'(2,3)] Cons.prems Suc j' show ?thesis by simp
  qed
qed

lemma GetStructFields_duplicate:
  assumes "i < j" "j < length fs" "eligible (fs ! i)" "eligible (fs ! j)"
    and "tagPosition (fs ! i) = tagPosition (fs ! j)"
  shows "\<exists>name tagValue msg. structFieldsLoop fs 0 [] [] = Inl (ValidationError name tagValue msg)"
proof (cases "structFieldsLoop fs 0 [] []")
  case (Inl e)
  with structFieldsLoop_error [OF Inl] show ?thesis by auto
next
  case (Inr res)
  from structFieldsLoop_distinct [OF Inr] have "distinct (map tagPosition (filter eligible fs))"
    by simp
  from distinct_map_filter_nth [OF this assms(1-4)] assms(5) show ?thesis by simp
qed

lemma GetStructFields_notStruct:
  "GetStructFields t = Inl ErrNotStruct
     \<longleftrightarrow> fieldsOf (case t of TPtr elem \<Rightarrow> elem | _ \<Rightarrow> t) = None"
proof (cases "fieldsOf (case t of TPtr elem \<Rightarrow> elem | _ \<Rightarrow> t)")
  case None
  then show ?thesis by (simp add: GetStructFields_def)
next
  case (Some fs)
  have "structFieldsLoop fs 0 [] [] \<noteq> Inl ErrNotStruct"
    using structFieldsLoop_error [of fs 0 "[]" "[]" ErrNotStruct] by auto
  then show ?thesis using Some by (simp add: GetStructFields_def)
qed


definition exampleDuplicate :: "StructField list" where
  "exampleDuplicate =
     [StructField ''Street'' True (Some ''1'') TString,
      StructField ''note'' False (Some ''1'') TString,
      StructField ''City'' True (Some ''1,omitempty'') TString]"

text \<open>
  Claim C8, as stated, at a pointer type. The kind of \<open>*struct\<close> is pointer, not struct, and
  \<^verbatim>\<open>GetStructFields\<close> returns the layout of the struct behind it, with no error: it follows
  one pointer before it looks at the kind.
\<close>

theorem C8_pointer_counterexample:
  "fieldsOf (TPtr (TStruct ''Address'' [StructField ''Street'' True (Some ''1'') TString])) = None
   \<and> GetStructFields (TPtr (TStruct ''Address'' [StructField ''Street'' True (Some ''1'') TString]))
     = Inr [(1, \<lparr>Name = ''Street'', Index = 0, Type = TString,
                  Options = \<lparr>Position = 1, OmitEmpty = False, Required = False, Default = [],
                             HasDefault = False\<rparr>,
                  HasTag = True\<rparr>)]"
  by code_simp

text \<open>
  Claim C8, amended. \<^verbatim>\<open>ParseTag\<close> returns a validation error (for that tag) when the options
  after the position hold \<open>required\<close> together with \<open>omitempty\<close> or with a default.
  \<^verbatim>\<open>GetStructFields\<close> returns a validation error when two of the fields it would enter share
  a position, for the struct type and for a pointer to it. It returns the not-struct error
  exactly when the type, after following one pointer if it is a pointer, is not of kind struct.
\<close>

theorem C8_tag_validation:
  "(''required'' \<in> set (map TrimSpace (drop 1 (splitTagParts tag)))
      \<and> (''omitempty'' \<in> set (map TrimSpace (drop 1 (splitTagParts tag)))
         \<or> list_ex isDefaultPart (drop 1 (splitTagParts tag)))
     \<longrightarrow> (\<exists>msg. ParseTag tag = Inl (ValidationError [] tag msg)))
   \<and> (i < j \<and> j < length fs \<and> eligible (fs ! i) \<and> eligible (fs ! j)
        \<and> tagPosition (fs ! i) = tagPosition (fs ! j)
     \<longrightarrow> (\<exists>name tagValue msg.
            GetStructFields (TStruct tname fs) = Inl (ValidationError name tagValue msg))
         \<and> (\<exists>name tagValue msg.
            GetStructFields (TPtr (TStruct tname fs)) = Inl (ValidationError name tagValue msg)))
   \<and> (GetStructFields t = Inl ErrNotStruct
        \<longleftrightarrow> fieldsOf (case t of TPtr elem \<Rightarrow> elem | _ \<Rightarrow> t) = None)"
proof (intro conjI impI)
  assume h: "''required'' \<in> set (map TrimSpace (drop 1 (splitTagParts tag)))
      \<and> (''omitempty'' \<in> set (map TrimSpace (drop 1 (splitTagParts tag)))
         \<or> list_ex isDefaultPart (drop 1 (splitTagParts tag)))"
  show "\<exists>msg. ParseTag tag = Inl (ValidationError [] tag msg)"
  proof (cases "ParseTag tag")
    case (Inl e)
    with ParseTag_error [OF Inl] show ?thesis by auto
  next
    case (Inr opts)
    from ParseTag_flags [OF Inr] h show ?thesis by blast
  qed
next
  assume h: "i < j \<and> j < length fs \<and> eligible (fs ! i) \<and> eligible (fs ! j)
        \<and> tagPosition (fs ! i) = tagPosition (fs ! j)"
  then have dup: "\<exists>name tagValue msg. structFieldsLoop fs 0 [] [] = Inl (ValidationError name tagValue msg)"
    using GetStructFields_duplicate [of i j fs] by blast
  show "\<exists>name tagValue msg. GetStructFields (TStruct tname fs) = Inl (ValidationError name tagValue msg)"
    using dup by (simp add: GetStructFields_def)
  show "\<exists>name tagValue msg. GetStructFields (TPtr (TStruct tname fs)) = Inl (ValidationError name tagValue msg)"
    using dup by (simp add: GetStructFields_def)
next
  show "GetStructFields t = Inl ErrNotStruct
        \<longleftrightarrow> fieldsOf (case t of TPtr elem \<Rightarrow> elem | _ \<Rightarrow> t) = None"
    by (rule GetStructFields_notStruct)
qed

theorem C8_tag_validation_witness:
  "''required'' \<in> set (map TrimSpace (drop 1 (splitTagParts ''1,required,omitempty'')))
   \<and> ''omitempty'' \<in> set (map TrimSpace (drop 1 (splitTagParts ''1,required,omitempty'')))
   \<and> (\<exists>msg. ParseTag ''1,required,omitempty''
              = Inl (ValidationError [] ''1,required,omitempty'' msg))
   \<and> ''required'' \<in> set (map TrimSpace (drop 1 (splitTagParts ''2,default=x, required'')))
   \<and> list_ex isDefaultPart (drop 1 (splitTagParts ''2,default=x, required''))
   \<and> (\<exists>msg. ParseTag ''2,default=x, required''
              = Inl (ValidationError [] ''2,default=x, required'' msg))
   \<and> (0::nat) < 2 \<and> 2 < length exampleDuplicate
   \<and> eligible (exampleDuplicate ! 0) \<and> eligible (exampleDuplicate ! 2)
   \<and> tagPosition (exampleDuplicate ! 0) = tagPosition (exampleDuplicate ! 2)
   \<and> (\<exists>name tagValue msg.
         GetStructFields (TStruct ''Address'' exampleDuplicate) = Inl (ValidationError name tagValue msg))
   \<and> fieldsOf (case TSlice TString of TPtr elem \<Rightarrow> elem | _ \<Rightarrow> TSlice TString) = None
   \<and> GetStructFields (TSlice TString) = Inl ErrNotStruct"
proof -
  have a1: "''required'' \<in> set (map TrimSpace (drop 1 (splitTagParts ''1,required,omitempty'')))"
    by code_simp
  have a2: "''omitempty'' \<in> set (map TrimSpace (drop 1 (splitTagParts ''1,required,omitempty'')))"
    by code_simp
  have b1: "''required'' \<in> set (map TrimSpace (drop 1 (splitTagParts ''2,default=x, required'')))"
    by code_simp
  have b2: "list_ex isDefaultPart (drop 1 (splitTagParts ''2,default=x, required''))"
    by code_simp
  have c: "(0::nat) < 2" "2 < length exampleDuplicate"
    "eligible (exampleDuplicate ! 0)" "eligible (exampleDuplicate ! 2)"
    "tagPosition (exampleDuplicate ! 0) = tagPosition (exampleDuplicate ! 2)"
    by code_simp+
  have d: "fieldsOf (case TSlice TString of TPtr elem \<Rightarrow> elem | _ \<Rightarrow> TSlice TString) = None"
    by simp
  note t1 = C8_tag_validation [of "''1,required,omitempty''" 0 2 exampleDuplicate "''Address''"
      "TSlice TString"]
  note t2 = C8_tag_validation [of "''2,default=x, required''" 0 2 exampleDuplicate "''Address''"
      "TSlice TString"]
  from t1 a1 a2 have r1: "\<exists>msg. ParseTag ''1,required,omitempty''
              = Inl (ValidationError [] ''1,required,omitempty'' msg)" by blast
  from t2 b1 b2 have r2: "\<exists>msg. ParseTag ''2,default=x, required''
              = Inl (ValidationError [] ''2,default=x, required'' msg)" by blast
  from t1 c have r3: "\<exists>name tagValue msg.
         GetStructFields (TStruct ''Address'' exampleDuplicate) = Inl (ValidationError name tagValue msg)"
    by blast
  from t1 d have r4: "GetStructFields (TSlice TString) = Inl ErrNotStruct" by blast
  show ?thesis using a1 a2 r1 b1 b2 r2 c r3 d r4 by blast
qed

section \<open>Value converter (first part of types.go)\<close>

text \<open>
  Go values as reflection sees them. A signed or unsigned integer carries its mathematical
  value and the type of the field gives its width. Floating-point numbers and times are
  values of two types \<open>'f\<close> and \<open>'t\<close> that the model leaves open. A \<^verbatim>\<open>sql.Null\<close> wrapper is its
  payload and its \<^verbatim>\<open>Valid\<close> flag; a pointer is \<open>None\<close> when nil; a slice is \<open>None\<close> when nil; a
  struct value carries its type (name and fields) and one value for each field; \<open>VOther\<close> is a
  value of another kind, with the name of the kind and whether it is the zero value.
\<close>

datatype ('f, 't) govalue =
    VBool bool
  | VString string
  | VInt int
  | VUint nat
  | VFloat32 'f
  | VFloat64 'f
  | VTime 't
  | VNullString string bool
  | VNullBool bool bool
  | VNullInt16 int bool
  | VNullInt32 int bool
  | VNullInt64 int bool
  | VNullByte nat bool
  | VNullFloat64 'f bool
  | VNullTime 't bool
  | VPtr "('f, 't) govalue option"
  | VSlice "('f, 't) govalue list option"
  | VStruct string "StructField list" "('f, 't) govalue list"
  | VOther string bool

text \<open>
  What the codec takes from libraries that are not among the sources, as parameters:
  \<^item> \<open>parseFloat value bitSize\<close>: \<^verbatim>\<open>strconv.ParseFloat\<close>, the text of its error or the number;
  \<^item> \<open>formatFloat v bitSize\<close>: \<^verbatim>\<open>strconv.FormatFloat(v, 'f', -1, bitSize)\<close>;
  \<^item> \<open>zeroFloat\<close>: the number 0;
  \<^item> \<open>timeParse layout value\<close>: \<^verbatim>\<open>time.Parse\<close>, \<open>None\<close> being its error;
  \<^item> \<open>timeFormat t\<close>: \<^verbatim>\<open>t.Format(time.RFC3339)\<close>; \<open>timeIsZero t\<close>: \<^verbatim>\<open>t.IsZero()\<close>;
    \<open>zeroTime\<close>: \<^verbatim>\<open>time.Time{}\<close>;
  \<^item> \<open>quote\<close>: \<^verbatim>\<open>strconv.Quote\<close>, which the errors of \<^verbatim>\<open>strconv\<close> print their input with;
  \<^item> \<open>pqArray v\<close>: the text of \<^verbatim>\<open>pq.Array(v).Value()\<close> when it returns a string or bytes
    without an error, \<open>None\<close> otherwise;
  \<^item> \<open>rangeKeys ks\<close>: the order in which a \<^verbatim>\<open>range\<close> loop visits a map with the keys \<open>ks\<close>
    (the language leaves it open; it is a permutation of \<open>ks\<close>).
\<close>

record ('f, 't) stdlib =
  parseFloat :: "string \<Rightarrow> nat \<Rightarrow> string + 'f"
  formatFloat :: "'f \<Rightarrow> nat \<Rightarrow> string"
  zeroFloat :: 'f
  timeParse :: "string \<Rightarrow> string \<Rightarrow> 't option"
  timeFormat :: "'t \<Rightarrow> string"
  timeIsZero :: "'t \<Rightarrow> bool"
  zeroTime :: 't
  quote :: "string \<Rightarrow> string"
  pqArray :: "('f, 't) govalue \<Rightarrow> string option"
  rangeKeys :: "nat list \<Rightarrow> nat list"

text \<open>\<^verbatim>\<open>reflect.Type.String()\<close>, which the errors print.\<close>

fun typeString :: "gotype \<Rightarrow> string" where
  "typeString TBool = ''bool''"
| "typeString TString = ''string''"
| "typeString TInt = ''int''"
| "typeString TInt8 = ''int8''"
| "typeString TInt16 = ''int16''"
| "typeString TInt32 = ''int32''"
| "typeString TInt64 = ''int64''"
| "typeString TUint = ''uint''"
| "typeString TUint8 = ''uint8''"
| "typeString TUint16 = ''uint16''"
| "typeString TUint32 = ''uint32''"
| "typeString TUint64 = ''uint64''"
| "typeString TFloat32 = ''float32''"
| "typeString TFloat64 = ''float64''"
| "typeString TTime = ''time.Time''"
| "typeString TNullString = ''sql.NullString''"
| "typeString TNullBool = ''sql.NullBool''"
| "typeString TNullInt16 = ''sql.NullInt16''"
| "typeString TNullInt32 = ''sql.NullInt32''"
| "typeString TNullInt64 = ''sql.NullInt64''"
| "typeString TNullByte = ''sql.NullByte''"
| "typeString TNullFloat64 = ''sql.NullFloat64''"
| "typeString TNullTime = ''sql.NullTime''"
| "typeString (TPtr elem) = ''*'' @ typeString elem"
| "typeString (TSlice elem) = ''[]'' @ typeString elem"
| "typeString (TStruct name fs) = name"
| "typeString (TOther name) = name"

text \<open>
  \<^verbatim>\<open>strconv.ParseInt(s, 10, bitSize)\<close> and \<^verbatim>\<open>strconv.ParseUint(s, 10, bitSize)\<close>: decimal
  digits, for \<^verbatim>\<open>ParseInt\<close> after an optional sign, within the range of the bit size. Their
  two errors, and the text \<^verbatim>\<open>err.Error()\<close> prints.
\<close>

datatype numError = ErrSyntax | ErrRange

definition ParseInt :: "string \<Rightarrow> nat \<Rightarrow> numError + int" where
  "ParseInt s bitSize =
     (let neg = (s \<noteq> [] \<and> hd s = CHR ''-'');
          ds = (if s \<noteq> [] \<and> (hd s = CHR ''-'' \<or> hd s = CHR ''+'') then tl s else s);
          v = (if neg then - int (digitsValue ds) else int (digitsValue ds))
      in if ds = [] \<or> \<not> list_all isDigit ds then Inl ErrSyntax
         else if v < - (2 ^ (bitSize - 1)) \<or> 2 ^ (bitSize - 1) - 1 < v then Inl ErrRange
         else Inr v)"

definition ParseUint :: "string \<Rightarrow> nat \<Rightarrow> numError + nat" where
  "ParseUint s bitSize =
     (if s = [] \<or> \<not> list_all isDigit s then Inl ErrSyntax
      else if 2 ^ bitSize - 1 < digitsValue s then Inl ErrRange
      else Inr (digitsValue s))"

definition numErrorText :: "('f, 't) stdlib \<Rightarrow> string \<Rightarrow> string \<Rightarrow> numError \<Rightarrow> string" where
  "numErrorText env fn s e =
     ''strconv.'' @ fn @ '': parsing '' @ quote env s @ '': ''
       @ (case e of ErrSyntax \<Rightarrow> ''invalid syntax'' | ErrRange \<Rightarrow> ''value out of range'')"

text \<open>\<^verbatim>\<open>strconv.FormatInt(v, 10)\<close>; \<^verbatim>\<open>strconv.FormatUint(v, 10)\<close> is \<open>showNat\<close>.\<close>

definition FormatInt :: "int \<Rightarrow> string" where
  "FormatInt v = (if v < 0 then ''-'' @ showNat (nat (- v)) else showNat (nat v))"

text \<open>
  The bit size that \<^verbatim>\<open>convertToInt\<close> and \<^verbatim>\<open>convertToUint\<close> choose; \<^verbatim>\<open>strconv.IntSize\<close> is 64.
\<close>

fun intBitSize :: "gotype \<Rightarrow> nat" where
  "intBitSize TInt8 = 8"
| "intBitSize TInt16 = 16"
| "intBitSize TInt32 = 32"
| "intBitSize TInt64 = 64"
| "intBitSize t = 64"

fun uintBitSize :: "gotype \<Rightarrow> nat" where
  "uintBitSize TUint8 = 8"
| "uintBitSize TUint16 = 16"
| "uintBitSize TUint32 = 32"
| "uintBitSize TUint64 = 64"
| "uintBitSize t = 64"

definition convertToInt ::
  "('f, 't) stdlib \<Rightarrow> string \<Rightarrow> gotype \<Rightarrow> string \<Rightarrow> nat \<Rightarrow> error + ('f, 't) govalue" where
  "convertToInt env value0 targetType fieldName fieldPos =
     (if value0 = [] then Inr (VInt 0)
      else
        (let value = TrimSpace value0 in
         case ParseInt value (intBitSize targetType) of
           Inl e \<Rightarrow> Inl (TypeMismatchError fieldName fieldPos value (typeString targetType)
                          (numErrorText env ''ParseInt'' value e))
         | Inr parsed \<Rightarrow> Inr (VInt parsed)))"

definition convertToUint ::
  "('f, 't) stdlib \<Rightarrow> string \<Rightarrow> gotype \<Rightarrow> string \<Rightarrow> nat \<Rightarrow> error + ('f, 't) govalue" where
  "convertToUint env value0 targetType fieldName fieldPos =
     (if value0 = [] then Inr (VUint 0)
      else
        (let value = TrimSpace value0 in
         case ParseUint value (uintBitSize targetType) of
           Inl e \<Rightarrow> Inl (TypeMismatchError fieldName fieldPos value (typeString targetType)
                          (numErrorText env ''ParseUint'' value e))
         | Inr parsed \<Rightarrow> Inr (VUint parsed)))"

definition convertToFloat ::
  "('f, 't) stdlib \<Rightarrow> string \<Rightarrow> gotype \<Rightarrow> string \<Rightarrow> nat \<Rightarrow> error + ('f, 't) govalue" where
  "convertToFloat env value0 targetType fieldName fieldPos =
     (if value0 = [] then
        Inr (if targetType = TFloat32 then VFloat32 (zeroFloat env) else VFloat64 (zeroFloat env))
      else
        (let value = TrimSpace value0;
             bitSize = (if targetType = TFloat32 then 32 else 64) in
         case parseFloat env value bitSize of
           Inl msg \<Rightarrow> Inl (TypeMismatchError fieldName fieldPos value (typeString targetType) msg)
         | Inr parsed \<Rightarrow>
             Inr (if targetType = TFloat32 then VFloat32 parsed else VFloat64 parsed)))"

text \<open>
  \<^verbatim>\<open>convertToBool\<close>. \<open>ToLower\<close> lowers the ASCII letters only; no other letter lowers to a
  letter of the twelve accepted words, so the decision is the one of \<^verbatim>\<open>strings.ToLower\<close>.
\<close>

definition convertToBool ::
  "string \<Rightarrow> string \<Rightarrow> nat \<Rightarrow> error + ('f, 't) govalue" where
  "convertToBool value0 fieldName fieldPos =
     (if value0 = [] then Inr (VBool False)
      else
        (let value = TrimSpace (ToLower value0) in
         if value \<in> set [''true'', ''1'', ''yes'', ''on'', ''t'', ''y''] then Inr (VBool True)
         else if value \<in> set [''false'', ''0'', ''no'', ''off'', ''f'', ''n'']
         then Inr (VBool False)
         else Inl (TypeMismatchError fieldName fieldPos value ''bool'' ''must be true/false'')))"

text \<open>
  \<^verbatim>\<open>convertToTime\<close> tries \<^verbatim>\<open>time.RFC3339\<close>, then \<^verbatim>\<open>time.RFC3339Nano\<close>, then five more
  layouts, and takes the first that parses.
\<close>

definition timeLayouts :: "string list" where
  "timeLayouts =
     [''2006-01-02T15:04:05Z07:00'', ''2006-01-02T15:04:05.999999999Z07:00'',
      ''2006-01-02'', ''2006-01-02 15:04:05'', ''2006-01-02T15:04:05'',
      ''01/02/2006'', ''01/02/2006 15:04:05'']"

fun firstParse :: "('f, 't) stdlib \<Rightarrow> string list \<Rightarrow> string \<Rightarrow> 't option" where
  "firstParse env [] value = None"
| "firstParse env (layout # layouts) value =
     (case timeParse env layout value of
        Some t \<Rightarrow> Some t
      | None \<Rightarrow> firstParse env layouts value)"

definition convertToTime ::
  "('f, 't) stdlib \<Rightarrow> string \<Rightarrow> string \<Rightarrow> nat \<Rightarrow> error + ('f, 't) govalue" where
  "convertToTime env value0 fieldName fieldPos =
     (if value0 = [] then Inr (VTime (zeroTime env))
      else
        (let value = TrimSpace value0 in
         case firstParse env timeLayouts value of
           Some t \<Rightarrow> Inr (VTime t)
         | None \<Rightarrow> Inl (TypeMismatchError fieldName fieldPos value ''time.Time''
                          ''invalid time format'')))"

text \<open>
  \<^verbatim>\<open>strings.EqualFold(value, "null")\<close>: no letter outside ASCII folds to \<open>n\<close>, \<open>u\<close> or \<open>l\<close>.
\<close>

definition isNullText :: "string \<Rightarrow> bool" where
  "isNullText value = (value = [] \<or> ToLower value = ''null'')"

text \<open>
  \<^verbatim>\<open>convertSQLNull\<close>; \<open>None\<close> is its result \<^verbatim>\<open>handled == false\<close>.
\<close>

definition convertSQLNull ::
  "('f, 't) stdlib \<Rightarrow> string \<Rightarrow> gotype \<Rightarrow> string \<Rightarrow> nat \<Rightarrow> (error + ('f, 't) govalue) option" where
  "convertSQLNull env value targetType fieldName fieldPos =
     (if targetType = TNullString then
        Some (if isNullText value then Inr (VNullString [] False)
              else Inr (VNullString value True))
      else if targetType = TNullBool then
        Some (if isNullText value then Inr (VNullBool False False)
              else (case convertToBool value fieldName fieldPos of
                      Inr (VBool b) \<Rightarrow> Inr (VNullBool b True)
                    | Inr other \<Rightarrow> Inr other
                    | Inl e \<Rightarrow> Inl e))
      else if targetType = TNullInt16 \<or> targetType = TNullInt32 \<or> targetType = TNullInt64 then
        Some (if isNullText value then
                Inr (if targetType = TNullInt16 then VNullInt16 0 False
                     else if targetType = TNullInt32 then VNullInt32 0 False
                     else VNullInt64 0 False)
              else
                (let intTarget = (if targetType = TNullInt16 then TInt16
                                  else if targetType = TNullInt32 then TInt32 else TInt64) in
                 case convertToInt env value intTarget fieldName fieldPos of
                   Inr (VInt i) \<Rightarrow>
                     Inr (if targetType = TNullInt16 then VNullInt16 i True
                          else if targetType = TNullInt32 then VNullInt32 i True
                          else VNullInt64 i True)
                 | Inr other \<Rightarrow> Inr other
                 | Inl e \<Rightarrow> Inl e))
      else if targetType = TNullByte then
        Some (if isNullText value then Inr (VNullByte 0 False)
              else (case convertToUint env value TUint8 fieldName fieldPos of
                      Inr (VUint u) \<Rightarrow> Inr (VNullByte u True)
                    | Inr other \<Rightarrow> Inr other
                    | Inl e \<Rightarrow> Inl e))
      else if targetType = TNullFloat64 then
        Some (if isNullText value then Inr (VNullFloat64 (zeroFloat env) False)
              else (case convertToFloat env value TFloat64 fieldName fieldPos of
                      Inr (VFloat64 x) \<Rightarrow> Inr (VNullFloat64 x True)
                    | Inr other \<Rightarrow> Inr other
                    | Inl e \<Rightarrow> Inl e))
      else if targetType = TNullTime then
        Some (if isNullText value then Inr (VNullTime (zeroTime env) False)
              else (case convertToTime env value fieldName fieldPos of
                      Inr (VTime t) \<Rightarrow> Inr (VNullTime t True)
                    | Inr other \<Rightarrow> Inr other
                    | Inl e \<Rightarrow> Inl e))
      else None)"

text \<open>
  The kind switch of \<^verbatim>\<open>ConvertToType\<close> for the types that are neither pointers nor slices.
  A struct type of the model has no \<^verbatim>\<open>Scan\<close> and no \<^verbatim>\<open>ParseString\<close> method.
\<close>

definition convertBasic ::
  "('f, 't) stdlib \<Rightarrow> string \<Rightarrow> gotype \<Rightarrow> string \<Rightarrow> nat \<Rightarrow> error + ('f, 't) govalue" where
  "convertBasic env value targetType fieldName fieldPos =
     (if targetType = TString then Inr (VString value)
      else if targetType \<in> set [TInt, TInt8, TInt16, TInt32, TInt64]
      then convertToInt env value targetType fieldName fieldPos
      else if targetType \<in> set [TUint, TUint8, TUint16, TUint32, TUint64]
      then convertToUint env value targetType fieldName fieldPos
      else if targetType = TFloat32 \<or> targetType = TFloat64
      then convertToFloat env value targetType fieldName fieldPos
      else if targetType = TBool then convertToBool value fieldName fieldPos
      else if targetType = TTime then convertToTime env value fieldName fieldPos
      else if fieldsOf targetType \<noteq> None
      then Inl (TypeMismatchError fieldName fieldPos value (typeString targetType)
                  ''unsupported struct type'')
      else Inl (TypeMismatchError fieldName fieldPos value (typeString targetType)
                  ''unsupported type''))"

definition splitSliceElements :: "string \<Rightarrow> string list" where
  "splitSliceElements content = splitLoop content [] [] False False"

text \<open>The test of \<^verbatim>\<open>convertToSlice\<close> for a value that is not delimited as a slice.\<close>

definition notSliceText :: "string \<Rightarrow> bool" where
  "notSliceText value =
     (length value < 2
      \<or> (value ! 0 \<noteq> CHR ''['' \<and> value ! 0 \<noteq> CHR ''{'')
      \<or> (value ! (length value - 1) \<noteq> CHR '']'' \<and> value ! (length value - 1) \<noteq> CHR ''}''))"

text \<open>
  \<^verbatim>\<open>ConvertToType\<close>, with \<^verbatim>\<open>convertToSlice\<close> in its slice case and the loop of
  \<^verbatim>\<open>convertToSlice\<close> over the elements as \<open>convertElems\<close>.
\<close>

fun ConvertToType ::
  "('f, 't) stdlib \<Rightarrow> string \<Rightarrow> gotype \<Rightarrow> string \<Rightarrow> nat \<Rightarrow> error + ('f, 't) govalue"
and convertElems ::
  "('f, 't) stdlib \<Rightarrow> string list \<Rightarrow> gotype \<Rightarrow> string \<Rightarrow> nat \<Rightarrow> nat \<Rightarrow> ('f, 't) govalue list
     \<Rightarrow> error + ('f, 't) govalue" where
  "ConvertToType env value (TPtr elemType) fieldName fieldPos =
     (if value = [] then Inr (VPtr None)
      else (case ConvertToType env value elemType fieldName fieldPos of
              Inl e \<Rightarrow> Inl e
            | Inr elemValue \<Rightarrow> Inr (VPtr (Some elemValue))))"
| "ConvertToType env value0 (TSlice elemType) fieldName fieldPos =
     (if value0 = [] then Inr (VSlice (Some []))
      else
        (let value = TrimSpace value0 in
         if notSliceText value then
           Inl (TypeMismatchError fieldName fieldPos value (typeString (TSlice elemType))
                  ''slice must be in [val1,val2,...] or {val1,val2,...} format'')
         else
           (let content = take (length value - 1 - 1) (drop 1 value) in
            if content = [] then Inr (VSlice (Some []))
            else convertElems env (splitSliceElements content) elemType fieldName fieldPos 0 [])))"
| "ConvertToType env value targetType fieldName fieldPos =
     (case convertSQLNull env value targetType fieldName fieldPos of
        Some converted \<Rightarrow> converted
      | None \<Rightarrow> convertBasic env value targetType fieldName fieldPos)"
| "convertElems env [] elemType fieldName fieldPos i slice = Inr (VSlice (Some slice))"
| "convertElems env (elem # elements) elemType fieldName fieldPos i slice =
     (case ConvertToType env (TrimSpace elem) elemType
             (fieldName @ ''['' @ showNat i @ '']'') fieldPos of
        Inl e \<Rightarrow> Inl e
      | Inr elemValue \<Rightarrow>
          convertElems env elements elemType fieldName fieldPos (i + 1) (slice @ [elemValue]))"

text \<open>
  \<^verbatim>\<open>IsZeroValue\<close>: nil for a pointer or a slice, and \<^verbatim>\<open>reflect.Value.IsZero\<close> otherwise, which
  for a struct asks every field.
\<close>

fun IsZeroValue :: "('f, 't) stdlib \<Rightarrow> ('f, 't) govalue \<Rightarrow> bool" where
  "IsZeroValue env (VBool b) = (\<not> b)"
| "IsZeroValue env (VString s) = (s = [])"
| "IsZeroValue env (VInt i) = (i = 0)"
| "IsZeroValue env (VUint u) = (u = 0)"
| "IsZeroValue env (VFloat32 x) = (x = zeroFloat env)"
| "IsZeroValue env (VFloat64 x) = (x = zeroFloat env)"
| "IsZeroValue env (VTime t) = (t = zeroTime env)"
| "IsZeroValue env (VNullString s valid) = (s = [] \<and> \<not> valid)"
| "IsZeroValue env (VNullBool b valid) = (\<not> b \<and> \<not> valid)"
| "IsZeroValue env (VNullInt16 i valid) = (i = 0 \<and> \<not> valid)"
| "IsZeroValue env (VNullInt32 i valid) = (i = 0 \<and> \<not> valid)"
| "IsZeroValue env (VNullInt64 i valid) = (i = 0 \<and> \<not> valid)"
| "IsZeroValue env (VNullByte u valid) = (u = 0 \<and> \<not> valid)"
| "IsZeroValue env (VNullFloat64 x valid) = (x = zeroFloat env \<and> \<not> valid)"
| "IsZeroValue env (VNullTime t valid) = (t = zeroTime env \<and> \<not> valid)"
| "IsZeroValue env (VPtr p) = (p = None)"
| "IsZeroValue env (VSlice s) = (s = None)"
| "IsZeroValue env (VStruct name fs vals) = list_all (IsZeroValue env) vals"
| "IsZeroValue env (VOther kind zero) = zero"

abbreviation emptyQuoted :: string where "emptyQuoted \<equiv> [dquote, dquote]"

text \<open>\<^verbatim>\<open>formatSQLNull\<close>; \<open>None\<close> is its result \<^verbatim>\<open>handled == false\<close>. Its error is always nil.\<close>

fun formatSQLNull :: "('f, 't) stdlib \<Rightarrow> ('f, 't) govalue \<Rightarrow> string option" where
  "formatSQLNull env (VNullString s valid) = Some (if \<not> valid then ''NULL'' else EscapeString s)"
| "formatSQLNull env (VNullBool b valid) =
     Some (if \<not> valid then ''NULL'' else if b then ''true'' else ''false'')"
| "formatSQLNull env (VNullInt16 i valid) = Some (if \<not> valid then ''NULL'' else FormatInt i)"
| "formatSQLNull env (VNullInt32 i valid) = Some (if \<not> valid then ''NULL'' else FormatInt i)"
| "formatSQLNull env (VNullInt64 i valid) = Some (if \<not> valid then ''NULL'' else FormatInt i)"
| "formatSQLNull env (VNullByte u valid) = Some (if \<not> valid then ''NULL'' else showNat u)"
| "formatSQLNull env (VNullFloat64 x valid) =
     Some (if \<not> valid then ''NULL'' else formatFloat env x 64)"
| "formatSQLNull env (VNullTime t valid) =
     Some (if \<not> valid then ''NULL''
           else if timeIsZero env t then emptyQuoted
           else EscapeString (timeFormat env t))"
| "formatSQLNull env v = None"

text \<open>
  The kind switch of \<^verbatim>\<open>FormatValue\<close> for the values that are neither pointers, slices nor
  structs of the program; \<open>Inl\<close> is the text of the error.
\<close>

fun formatBasic :: "('f, 't) stdlib \<Rightarrow> ('f, 't) govalue \<Rightarrow> string + string" where
  "formatBasic env (VString s) = Inr (EscapeString s)"
| "formatBasic env (VInt i) = Inr (FormatInt i)"
| "formatBasic env (VUint u) = Inr (showNat u)"
| "formatBasic env (VFloat32 x) = Inr (formatFloat env x 32)"
| "formatBasic env (VFloat64 x) = Inr (formatFloat env x 64)"
| "formatBasic env (VBool b) = Inr (if b then ''true'' else ''false'')"
| "formatBasic env (VTime t) =
     Inr (if timeIsZero env t then emptyQuoted else EscapeString (timeFormat env t))"
| "formatBasic env (VOther kind zero) = Inl (''unsupported type: '' @ kind)"
| "formatBasic env v = Inl ''unsupported type''"

text \<open>
  The field that \<^verbatim>\<open>fields[pos]\<close> reads: the zero \<^verbatim>\<open>FieldInfo\<close> when the map has no such key.
\<close>

definition lookupField :: "FieldInfo posmap \<Rightarrow> nat \<Rightarrow> FieldInfo" where
  "lookupField flds pos =
     (case map_of flds pos of
        Some field \<Rightarrow> field
      | None \<Rightarrow> \<lparr>Name = [], Index = 0, Type = TOther [], Options = emptyOptions, HasTag = False\<rparr>)"

text \<open>
  The inner loop of \<^verbatim>\<open>Marshal\<close>: one placeholder for every position of the gap, but none for
  a position whose field is left out as an empty \<open>omitempty\<close> field.
\<close>

definition gapFill ::
  "('f, 't) stdlib \<Rightarrow> FieldInfo posmap \<Rightarrow> ('f, 't) govalue list \<Rightarrow> nat list \<Rightarrow> string list" where
  "gapFill env flds vals gap =
     concat (map (\<lambda>i. case map_of flds i of
                         Some skipField \<Rightarrow>
                           if OmitEmpty (Options skipField)
                              \<and> IsZeroValue env (vals ! Index skipField)
                           then [] else [emptyQuoted]
                       | None \<Rightarrow> [emptyQuoted]) gap)"

text \<open>
  The outer loop of \<^verbatim>\<open>Marshal\<close> over the sorted positions. \<open>vals\<close> are the values of the
  fields of the struct and \<open>formatted ! i\<close> is the result of \<^verbatim>\<open>FormatValue\<close> on field \<open>i\<close>; the
  loop looks only at the fields it emits.
\<close>

fun marshalLoop ::
  "('f, 't) stdlib \<Rightarrow> FieldInfo posmap \<Rightarrow> ('f, 't) govalue list \<Rightarrow> (string + string) list
     \<Rightarrow> nat list \<Rightarrow> string list \<Rightarrow> nat \<Rightarrow> error + string" where
  "marshalLoop env flds vals formatted [] values lastIncludedPos = Inr (BuildRowLiteral values)"
| "marshalLoop env flds vals formatted (pos # rest) values lastIncludedPos =
     (let field = lookupField flds pos in
      if OmitEmpty (Options field) \<and> IsZeroValue env (vals ! Index field)
      then marshalLoop env flds vals formatted rest values lastIncludedPos
      else
        (case formatted ! Index field of
           Inl msg \<Rightarrow> Inl (MarshalError (FieldInfo.Name field) pos msg)
         | Inr text \<Rightarrow>
             marshalLoop env flds vals formatted rest
               (values @ gapFill env flds vals [lastIncludedPos + 1..<pos] @ [text]) pos))"

text \<open>\<^verbatim>\<open>Marshal\<close> from the layout on, for a value of the struct type \<open>t\<close>.\<close>

definition marshalFields ::
  "('f, 't) stdlib \<Rightarrow> gotype \<Rightarrow> ('f, 't) govalue list \<Rightarrow> (string + string) list \<Rightarrow> error + string" where
  "marshalFields env t vals formatted =
     (case GetStructFields t of
        Inl e \<Rightarrow> Inl e
      | Inr flds \<Rightarrow>
          if flds = [] then Inr ''()''
          else marshalLoop env flds vals formatted (GetSortedPositions flds) [] 0)"

text \<open>
  The fallback loop of \<^verbatim>\<open>formatSlice\<close>: \<^verbatim>\<open>strings.Trim(formatted, "\"")\<close> removes every
  leading and trailing double quote of an element of kind string.
\<close>

definition trimQuotes :: "string \<Rightarrow> string" where
  "trimQuotes s = rev (dropWhile (\<lambda>c. c = dquote) (rev (dropWhile (\<lambda>c. c = dquote) s)))"

fun sliceElements ::
  "(('f, 't) govalue \<times> (string + string)) list \<Rightarrow> string list \<Rightarrow> string + string" where
  "sliceElements [] elements = Inr (''{'' @ joinStrings elements '','' @ ''}'')"
| "sliceElements ((elem, r) # rest) elements =
     (case r of
        Inl msg \<Rightarrow> Inl msg
      | Inr text \<Rightarrow>
          sliceElements rest
            (elements @ [case elem of VString s \<Rightarrow> trimQuotes text | _ \<Rightarrow> text]))"

text \<open>
  \<^verbatim>\<open>FormatValue\<close>, with \<^verbatim>\<open>formatSlice\<close> in its slice case. A nested struct is marshalled by
  \<^verbatim>\<open>Marshal\<close>; the results of \<^verbatim>\<open>FormatValue\<close> on the fields and on the elements are handed
  to the loops as lists.
\<close>

fun FormatValue :: "('f, 't) stdlib \<Rightarrow> ('f, 't) govalue \<Rightarrow> string + string" where
  "FormatValue env (VPtr None) = Inr emptyQuoted"
| "FormatValue env (VPtr (Some v)) = FormatValue env v"
| "FormatValue env (VSlice None) = Inr ''{}''"
| "FormatValue env (VSlice (Some elems)) =
     (if elems = [] then Inr ''{}''
      else
        (case pqArray env (VSlice (Some elems)) of
           Some literal \<Rightarrow> Inr (EscapeString literal)
         | None \<Rightarrow> sliceElements (zip elems (map (FormatValue env) elems)) []))"
| "FormatValue env (VStruct name fs vals) =
     (case marshalFields env (TStruct name fs) vals (map (FormatValue env) vals) of
        Inr literal \<Rightarrow> Inr literal
      | Inl e \<Rightarrow> Inl (''unsupported struct type: '' @ name))"
| "FormatValue env v =
     (case formatSQLNull env v of
        Some text \<Rightarrow> Inr text
      | None \<Rightarrow> formatBasic env v)"

section \<open>Marshaler and unmarshaler (marshaler.go)\<close>

text \<open>
  The argument \<^verbatim>\<open>v interface{}\<close>: the nil interface, or a value. The type of a value of kind
  struct, and the values of its fields.
\<close>

datatype ('f, 't) goarg = ANil | AValue "('f, 't) govalue"

fun structTypeOf :: "('f, 't) govalue \<Rightarrow> gotype option" where
  "structTypeOf (VStruct name fs vals) = Some (TStruct name fs)"
| "structTypeOf (VTime t) = Some TTime"
| "structTypeOf (VNullString s valid) = Some TNullString"
| "structTypeOf (VNullBool b valid) = Some TNullBool"
| "structTypeOf (VNullInt16 i valid) = Some TNullInt16"
| "structTypeOf (VNullInt32 i valid) = Some TNullInt32"
| "structTypeOf (VNullInt64 i valid) = Some TNullInt64"
| "structTypeOf (VNullByte u valid) = Some TNullByte"
| "structTypeOf (VNullFloat64 x valid) = Some TNullFloat64"
| "structTypeOf (VNullTime t valid) = Some TNullTime"
| "structTypeOf v = None"

fun fieldValues :: "('f, 't) govalue \<Rightarrow> ('f, 't) govalue list" where
  "fieldValues (VStruct name fs vals) = vals"
| "fieldValues v = []"

text \<open>The pointer loop of \<^verbatim>\<open>Marshal\<close>; \<open>None\<close> when it meets a nil pointer.\<close>

fun derefAll :: "('f, 't) govalue \<Rightarrow> ('f, 't) govalue option" where
  "derefAll (VPtr None) = None"
| "derefAll (VPtr (Some v)) = derefAll v"
| "derefAll v = Some v"

definition Marshal :: "('f, 't) stdlib \<Rightarrow> ('f, 't) goarg \<Rightarrow> error + string" where
  "Marshal env arg =
     (case arg of
        ANil \<Rightarrow> Inl ErrNilPointer
      | AValue v \<Rightarrow>
          (case derefAll v of
             None \<Rightarrow> Inl ErrNilPointer
           | Some rv \<Rightarrow>
               (case structTypeOf rv of
                  None \<Rightarrow> Inl ErrNotStruct
                | Some t \<Rightarrow>
                    marshalFields env t (fieldValues rv)
                      (map (FormatValue env) (fieldValues rv)))))"

text \<open>\<^verbatim>\<open>fieldValue.Set(converted)\<close> on field \<open>i\<close> of the struct behind the pointer.\<close>

fun setField :: "('f, 't) govalue \<Rightarrow> nat \<Rightarrow> ('f, 't) govalue \<Rightarrow> ('f, 't) govalue" where
  "setField (VStruct name fs vals) i x = VStruct name fs (vals[i := x])"
| "setField v i x = v"

text \<open>
  The map \<^verbatim>\<open>requiredFields\<close> from position to field name, as \<^verbatim>\<open>Unmarshal\<close> fills it, and
  \<^verbatim>\<open>delete(requiredFields, pos)\<close>.
\<close>

definition buildRequired :: "('f, 't) stdlib \<Rightarrow> FieldInfo posmap \<Rightarrow> string posmap" where
  "buildRequired env flds =
     map (\<lambda>pos. (pos, FieldInfo.Name (lookupField flds pos)))
       (filter (\<lambda>pos. Required (Options (lookupField flds pos))) (rangeKeys env (map fst flds)))"

definition deleteKey :: "nat \<Rightarrow> 'v posmap \<Rightarrow> 'v posmap" where
  "deleteKey pos m = filter (\<lambda>kv. fst kv \<noteq> pos) m"

text \<open>
  The loop of \<^verbatim>\<open>Unmarshal\<close> over the tokens. Its state is the struct behind the pointer and
  the map of required fields; it stops at the first conversion error and leaves the struct
  as it then is. Every field of the layout is exported and the struct is addressable, so
  \<^verbatim>\<open>CanSet\<close> holds.
\<close>

fun assignLoop ::
  "('f, 't) stdlib \<Rightarrow> FieldInfo posmap \<Rightarrow> Token list \<Rightarrow> nat \<Rightarrow> ('f, 't) govalue \<Rightarrow> string posmap
     \<Rightarrow> error option \<times> ('f, 't) govalue \<times> string posmap" where
  "assignLoop env flds [] i rv requiredFields = (None, rv, requiredFields)"
| "assignLoop env flds (token # rest) i rv requiredFields =
     (let pos = i + 1 in
      case map_of flds pos of
        None \<Rightarrow> assignLoop env flds rest (i + 1) rv requiredFields
      | Some field \<Rightarrow>
          (let valueStr = (if Value token = [] \<and> HasDefault (Options field)
                           then Default (Options field) else Value token) in
           case ConvertToType env valueStr (FieldInfo.Type field) (FieldInfo.Name field) pos of
             Inl e \<Rightarrow> (Some e, rv, deleteKey pos requiredFields)
           | Inr converted \<Rightarrow>
               assignLoop env flds rest (i + 1) (setField rv (Index field) converted)
                 (deleteKey pos requiredFields)))"

text \<open>
  The loop of \<^verbatim>\<open>Unmarshal\<close> over the layout that applies the defaults of the positions beyond
  the tokens; \<open>keys\<close> is the order in which the map is visited.
\<close>

fun defaultLoop ::
  "('f, 't) stdlib \<Rightarrow> FieldInfo posmap \<Rightarrow> nat \<Rightarrow> nat list \<Rightarrow> ('f, 't) govalue \<Rightarrow> string posmap
     \<Rightarrow> error option \<times> ('f, 't) govalue \<times> string posmap" where
  "defaultLoop env flds ntokens [] rv requiredFields = (None, rv, requiredFields)"
| "defaultLoop env flds ntokens (pos # keys) rv requiredFields =
     (let field = lookupField flds pos in
      if pos > ntokens \<and> HasDefault (Options field) then
        (case ConvertToType env (Default (Options field)) (FieldInfo.Type field)
                (FieldInfo.Name field) pos of
           Inl e \<Rightarrow> (Some e, rv, requiredFields)
         | Inr converted \<Rightarrow>
             defaultLoop env flds ntokens keys (setField rv (Index field) converted)
               (deleteKey pos requiredFields))
      else defaultLoop env flds ntokens keys rv requiredFields)"

text \<open>
  The last loop of \<^verbatim>\<open>Unmarshal\<close>: it returns at the first key that the \<^verbatim>\<open>range\<close> over
  \<^verbatim>\<open>requiredFields\<close> visits.
\<close>

definition missingRequired :: "('f, 't) stdlib \<Rightarrow> string posmap \<Rightarrow> error option" where
  "missingRequired env requiredFields =
     (if length requiredFields > 0 then
        (case rangeKeys env (map fst requiredFields) of
           [] \<Rightarrow> None
         | pos # keys \<Rightarrow>
             (case map_of requiredFields pos of
                None \<Rightarrow> None
              | Some name \<Rightarrow>
                  Some (ValidationError name []
                          (''required field at position '' @ showNat pos @ '' is missing''))))
      else None)"

definition unmarshalFields ::
  "('f, 't) stdlib \<Rightarrow> Token list \<Rightarrow> FieldInfo posmap \<Rightarrow> ('f, 't) govalue
     \<Rightarrow> error option \<times> ('f, 't) govalue" where
  "unmarshalFields env tokens flds rv =
     (case assignLoop env flds tokens 0 rv (buildRequired env flds) of
        (Some e, rv1, req1) \<Rightarrow> (Some e, rv1)
      | (None, rv1, req1) \<Rightarrow>
          (case defaultLoop env flds (length tokens) (rangeKeys env (map fst flds)) rv1 req1 of
             (Some e, rv2, req2) \<Rightarrow> (Some e, rv2)
           | (None, rv2, req2) \<Rightarrow> (missingRequired env req2, rv2)))"

text \<open>
  \<^verbatim>\<open>Unmarshal\<close> returns its error (\<open>None\<close> for nil) and the argument as the call leaves it: the
  struct behind the pointer is updated in place.
\<close>

definition Unmarshal ::
  "('f, 't) stdlib \<Rightarrow> string \<Rightarrow> ('f, 't) goarg \<Rightarrow> error option \<times> ('f, 't) goarg" where
  "Unmarshal env data arg =
     (case arg of
        ANil \<Rightarrow> (Some ErrNilPointer, arg)
      | AValue (VPtr None) \<Rightarrow> (Some ErrNilPointer, arg)
      | AValue (VPtr (Some rv)) \<Rightarrow>
          (case structTypeOf rv of
             None \<Rightarrow> (Some ErrNotStruct, arg)
           | Some t \<Rightarrow>
               (case ParseRowLiteral data of
                  Inl e \<Rightarrow> (Some e, arg)
                | Inr tokens \<Rightarrow>
                    (case GetStructFields t of
                       Inl e \<Rightarrow> (Some e, arg)
                     | Inr flds \<Rightarrow>
                         (case unmarshalFields env tokens flds rv of
                            (err, rv') \<Rightarrow> (err, AValue (VPtr (Some rv')))))))
      | AValue v \<Rightarrow> (Some ErrNotStruct, arg))"

definition UnmarshalStrict ::
  "('f, 't) stdlib \<Rightarrow> string \<Rightarrow> ('f, 't) goarg \<Rightarrow> error option \<times> ('f, 't) goarg" where
  "UnmarshalStrict env data arg =
     (case arg of
        ANil \<Rightarrow> (Some ErrNilPointer, arg)
      | AValue (VPtr None) \<Rightarrow> (Some ErrNilPointer, arg)
      | AValue (VPtr (Some rv)) \<Rightarrow>
          (case structTypeOf rv of
             None \<Rightarrow> (Some ErrNotStruct, arg)
           | Some t \<Rightarrow>
               (case ParseRowLiteral data of
                  Inl e \<Rightarrow> (Some e, arg)
                | Inr tokens \<Rightarrow>
                    (case GetStructFields t of
                       Inl e \<Rightarrow> (Some e, arg)
                     | Inr flds \<Rightarrow>
                         if length tokens > GetMaxPosition flds
                         then (Some (ValidationError [] []
                                  ''row has more values than struct has tagged fields''), arg)
                         else Unmarshal env data arg)))
      | AValue v \<Rightarrow> (Some ErrNotStruct, arg))"

end
